theory Spec2Isabelle
  imports Complex_Main "HOL-Library.Word"
begin

section \<open>Python values and exceptions\<close>

text \<open>
  The module \<^verbatim>\<open>csep/core/catalogs.py\<close> defines \<^verbatim>\<open>BaseCatalog\<close> and its three
  subclasses. Every \<^verbatim>\<open>raise\<close> of the module, and every exception that the Python
  and numpy operations it calls can raise, is a value of \<open>py_error\<close>; a method that
  can raise returns \<open>py_error + 'a\<close>, with \<open>Inl\<close> for the exception.
\<close>

datatype py_error =
    ValueError | KeyError | IndexError | TypeError | AttributeError
  | NotImplementedError | OSError | OverflowError

type_synonym byte = "8 word"

text \<open>
  A Python float (a float64). Only its comparisons are used by this module, and for
  those the value of a finite float is the rational number it denotes (\<open>-0.0\<close> and
  \<open>0.0\<close> compare equal); NaN compares false with everything.
\<close>

datatype fval = Finite rat | PosInf | NegInf | NaN

fun f_lt :: "fval \<Rightarrow> fval \<Rightarrow> bool" where
  "f_lt NaN _ = False"
| "f_lt _ NaN = False"
| "f_lt (Finite a) (Finite b) = (a < b)"
| "f_lt (Finite _) PosInf = True"
| "f_lt (Finite _) NegInf = False"
| "f_lt PosInf _ = False"
| "f_lt NegInf NegInf = False"
| "f_lt NegInf _ = True"

fun f_eq :: "fval \<Rightarrow> fval \<Rightarrow> bool" where
  "f_eq NaN _ = False"
| "f_eq _ NaN = False"
| "f_eq (Finite a) (Finite b) = (a = b)"
| "f_eq PosInf PosInf = True"
| "f_eq NegInf NegInf = True"
| "f_eq _ _ = False"

text \<open>
  Float addition, as \<^verbatim>\<open>numpy.cumsum\<close> uses it on an array of ones. The sum of two
  finite floats is written exactly: the running count of events is an integer, and
  float64 addition of integers is exact below \<open>2 ^ 53\<close>, which bounds the length of any
  array that fits in memory.
\<close>

fun f_add :: "fval \<Rightarrow> fval \<Rightarrow> fval" where
  "f_add NaN _ = NaN"
| "f_add _ NaN = NaN"
| "f_add (Finite a) (Finite b) = Finite (a + b)"
| "f_add PosInf NegInf = NaN"
| "f_add NegInf PosInf = NaN"
| "f_add PosInf _ = PosInf"
| "f_add _ PosInf = PosInf"
| "f_add NegInf _ = NegInf"
| "f_add _ NegInf = NegInf"

section \<open>numpy: dtypes and binary reads\<close>

text \<open>
  A numpy type code: \<^verbatim>\<open>'>i4'\<close> is \<open>NpInt BE 4\<close>, \<^verbatim>\<open>'>f8'\<close> is \<open>NpFloat BE 8\<close>,
  \<^verbatim>\<open>'<f4'\<close> is \<open>NpFloat LE 4\<close>, \<^verbatim>\<open>'S256'\<close> is \<open>NpBytes 256\<close>. The number is the
  width in bytes.
\<close>

datatype endian = BE | LE

datatype np_code = NpInt endian nat | NpFloat endian nat | NpBytes nat

fun np_width :: "np_code \<Rightarrow> nat" where
  "np_width (NpInt _ n) = n"
| "np_width (NpFloat _ n) = n"
| "np_width (NpBytes n) = n"

type_synonym dtype = "(string \<times> np_code) list"

text \<open>
  \<^verbatim>\<open>numpy.dtype([...])\<close> without \<^verbatim>\<open>align=True\<close> is packed: each field starts where
  the one before it ends, and the item size is the sum of the widths.
\<close>

definition itemsize :: "dtype \<Rightarrow> nat" where
  "itemsize dt = sum_list (map (\<lambda>f. np_width (snd f)) dt)"

definition dtype_names :: "dtype \<Rightarrow> string list" where
  "dtype_names dt = map fst dt"

fun field_offset :: "dtype \<Rightarrow> string \<Rightarrow> (nat \<times> np_code) option" where
  "field_offset [] nm = None"
| "field_offset ((n, c) # dt) nm =
     (if n = nm then Some (0, c)
      else (case field_offset dt nm of
              None \<Rightarrow> None
            | Some (off, c') \<Rightarrow> Some (np_width c + off, c')))"

text \<open>The two dtypes of \<^verbatim>\<open>UCERF3Catalog\<close>, as the class declares them.\<close>

definition header_dtype :: dtype where
  "header_dtype = [(''file_version'', NpInt BE 2), (''catalog_size'', NpInt BE 4)]"

definition event_dtype :: dtype where
  "event_dtype =
     [(''rupture_id'', NpInt BE 4),
      (''parent_id'', NpInt BE 4),
      (''generation'', NpInt BE 2),
      (''origin_time'', NpInt BE 8),
      (''latitude'', NpFloat BE 8),
      (''longitude'', NpFloat BE 8),
      (''depth'', NpFloat BE 8),
      (''magnitude'', NpFloat BE 8),
      (''dist_to_parent'', NpFloat BE 8),
      (''erf_index'', NpInt BE 4),
      (''fss_index'', NpInt BE 4),
      (''grid_node_index'', NpInt BE 4)]"

text \<open>
  A big-endian two's complement integer of \<open>length bs\<close> bytes: the unsigned value,
  then the wrap-around of the sign bit written out.
\<close>

definition be_nat :: "byte list \<Rightarrow> nat" where
  "be_nat bs = foldl (\<lambda>a b. a * 256 + unat b) 0 bs"

definition be_sint :: "byte list \<Rightarrow> int" where
  "be_sint bs =
     (let v = int (be_nat bs); w = 8 * length bs
      in if 2 ^ (w - 1) \<le> v then v - 2 ^ w else v)"

text \<open>
  The value of an integer field of one item of a structured array:
  \<^verbatim>\<open>item[name]\<close> for a big-endian integer field. \<open>None\<close> when the dtype has no such
  integer field.
\<close>

definition int_field :: "dtype \<Rightarrow> string \<Rightarrow> byte list \<Rightarrow> int option" where
  "int_field dt nm item =
     (case field_offset dt nm of
        Some (off, NpInt BE n) \<Rightarrow> Some (be_sint (take n (drop off item)))
      | _ \<Rightarrow> None)"

text \<open>
  \<^verbatim>\<open>numpy.fromfile(f, dtype, count)\<close> on a binary file whose unread bytes are \<open>bs\<close>,
  for a dtype of item size \<open>k\<close>. It reads whole items: \<open>count\<close> of them, or as many
  as the file still holds when \<open>count\<close> is negative. When the file holds fewer than
  \<open>count\<close> whole items it returns those it could read and raises nothing, and the
  read has consumed the file to its end. The result is the items read (each the
  \<open>k\<close> bytes of one item) and the unread bytes left.
\<close>

fun chunks :: "nat \<Rightarrow> nat \<Rightarrow> byte list \<Rightarrow> byte list list" where
  "chunks k 0 bs = []"
| "chunks k (Suc n) bs = take k bs # chunks k n (drop k bs)"

definition fromfile :: "nat \<Rightarrow> int \<Rightarrow> byte list \<Rightarrow> byte list list \<times> byte list" where
  "fromfile k count bs =
     (let avail = length bs div k;
          num = (if count < 0 then avail else nat count);
          nread = min num avail
      in (chunks k nread bs, if nread < num then [] else drop (nread * k) bs))"

section \<open>Catalog objects and the store\<close>

text \<open>
  The class of an object decides which \<^verbatim>\<open>load_catalog\<close> and which
  \<^verbatim>\<open>_get_catalog_as_ndarray\<close> a call on it reaches.
\<close>

datatype variant = BaseCatalog | CSEPCatalog | UCERF3Catalog | ComcatCatalog

datatype py_id = IdInt int | IdStr string

text \<open>
  A \<^verbatim>\<open>datetime\<close> in UTC, as the microseconds since \<^verbatim>\<open>datetime.min\<close>
  (0001-01-01T00:00:00); a \<^verbatim>\<open>timedelta\<close> in microseconds. Adding a timedelta raises
  \<^verbatim>\<open>OverflowError\<close> when the result leaves the range of \<^verbatim>\<open>datetime\<close>, whose last
  value is 9999-12-31T23:59:59.999999.
\<close>

type_synonym datetime = int
type_synonym timedelta = int

definition datetime_max :: datetime where
  "datetime_max = 3652059 * 86400000000 - 1"

definition datetime_add :: "datetime \<Rightarrow> timedelta \<Rightarrow> py_error + datetime" where
  "datetime_add t d =
     (let r = t + d in if 0 \<le> r \<and> r \<le> datetime_max then Inr r else Inl OverflowError)"

text \<open>An event object of the remote search service (\<^verbatim>\<open>libcomcat\<close>).\<close>

record comcat_event =
  ev_id :: string
  ev_time :: datetime
  ev_latitude :: fval
  ev_longitude :: fval
  ev_depth :: fval
  ev_magnitude :: fval

text \<open>
  What the attribute \<^verbatim>\<open>_catalog\<close> can hold besides \<^verbatim>\<open>None\<close>: a structured
  \<^verbatim>\<open>numpy.ndarray\<close> (its dtype and its rows, in order), or a Python list of event
  objects, which is what the remote search returns. \<open>'r\<close> is the type of one row of
  an array: the raw bytes of the item for an array read by \<^verbatim>\<open>numpy.fromfile\<close>.
\<close>

datatype 'r catalog_val = Ndarray dtype "'r list" | PyList "comcat_event list"

text \<open>
  The bounding box and minimum magnitude of a \<^verbatim>\<open>ComcatCatalog\<close>: five attributes
  that its constructor assigns one after the other, before anything can raise.
\<close>

record region =
  min_magnitude :: fval
  min_latitude :: fval
  max_latitude :: fval
  min_longitude :: fval
  max_longitude :: fval

record 'r catalog_obj =
  variant :: variant
  filename :: "string option"
  catalog_id :: "py_id option"
  format :: "string option"
  name :: "string option"
  private_catalog :: "'r catalog_val option"
  csep_dtype :: "dtype option"
  region :: "region option"
  start_time :: "datetime option"
  end_time :: "datetime option"

text \<open>
  \<open>private_catalog\<close> is the attribute \<^verbatim>\<open>_catalog\<close>; \<open>None\<close> in an option attribute
  is Python's \<^verbatim>\<open>None\<close> (or an attribute not yet assigned, which no method reads
  before its constructor has assigned it).
\<close>

definition blank :: "variant \<Rightarrow> 'r catalog_obj" where
  "blank cls =
     \<lparr>variant = cls, filename = None, catalog_id = None, format = None, name = None,
      private_catalog = None, csep_dtype = None, region = None,
      start_time = None, end_time = None\<rparr>"

text \<open>The query of one call of the remote search.\<close>

record query =
  q_region :: region
  q_starttime :: datetime
  q_endtime :: datetime
  q_extra :: "(string \<times> string) list"

text \<open>
  What a run leaves outside the objects: each call of \<^verbatim>\<open>load_catalog\<close> on an object,
  and each query sent to the remote search service.
\<close>

datatype io_event = Call_load_catalog nat | Search query

text \<open>
  The store: the objects by reference, the next free reference, the files by name,
  and the trace of loads and remote queries so far.
\<close>

record 'r world =
  heap :: "nat \<Rightarrow> 'r catalog_obj"
  next_ref :: nat
  files :: "string \<Rightarrow> byte list option"
  trace :: "io_event list"

definition upd :: "nat \<Rightarrow> ('r catalog_obj \<Rightarrow> 'r catalog_obj) \<Rightarrow> 'r world \<Rightarrow> 'r world" where
  "upd self f w = w\<lparr>heap := (heap w)(self := f (heap w self))\<rparr>"

definition new_object :: "variant \<Rightarrow> 'r world \<Rightarrow> nat \<times> 'r world" where
  "new_object cls w =
     (next_ref w,
      w\<lparr>heap := (heap w)(next_ref w := blank cls), next_ref := Suc (next_ref w)\<rparr>)"

text \<open>
  The collaborators that are not in this module: the time utilities of
  \<^verbatim>\<open>csep.utils.time\<close>, the remote search of \<^verbatim>\<open>libcomcat\<close>, Python's \<^verbatim>\<open>float\<close>, and
  what numpy does with the values of a row (\<open>np_row\<close> casts the tuple assigned to a
  row of the remote-service dtype; \<open>np_column name row\<close> is the value of a numeric
  field of a row, and \<open>np_scalar code v\<close> is the Python float \<open>v\<close>, both converted to
  the floating-point type in which numpy compares a column of type \<open>code\<close> with a
  Python float: for a column of \<^verbatim>\<open>f8\<close> the float itself, for a column of \<^verbatim>\<open>f4\<close> the
  float rounded to a float32). Each is a parameter; a call that can raise returns a
  sum.
\<close>

record 'r externals =
  epoch_time_to_utc_datetime :: "fval \<Rightarrow> py_error + datetime"
  timedelta_from_years :: "fval \<Rightarrow> py_error + timedelta"
  datetime_to_utc_epoch :: "datetime \<Rightarrow> py_error + fval"
  search :: "query \<Rightarrow> py_error + comcat_event list"
  np_row :: "string \<times> fval \<times> fval \<times> fval \<times> fval \<times> fval \<Rightarrow> 'r"
  np_column :: "string \<Rightarrow> 'r \<Rightarrow> fval"
  np_scalar :: "np_code \<Rightarrow> fval \<Rightarrow> fval"
  py_float :: "string \<Rightarrow> fval option"

section \<open>The property \<^verbatim>\<open>catalog\<close> and its setter\<close>

definition comcat_dtype :: dtype where
  "comcat_dtype =
     [(''id'', NpBytes 256), (''epoch_time'', NpFloat LE 4), (''latitude'', NpFloat LE 4),
      (''longitude'', NpFloat LE 4), (''depth'', NpFloat LE 4), (''magnitude'', NpFloat LE 4)]"

text \<open>The loop of \<^verbatim>\<open>ComcatCatalog._get_catalog_as_ndarray\<close>: one row per event.\<close>

fun comcat_rows :: "'r externals \<Rightarrow> comcat_event list \<Rightarrow> py_error + 'r list" where
  "comcat_rows ext [] = Inr []"
| "comcat_rows ext (event # events) =
     (case datetime_to_utc_epoch ext (ev_time event) of
        Inl e \<Rightarrow> Inl e
      | Inr t \<Rightarrow>
          (case comcat_rows ext events of
             Inl e \<Rightarrow> Inl e
           | Inr rs \<Rightarrow>
               Inr (np_row ext (ev_id event, t, ev_latitude event, ev_longitude event,
                               ev_depth event, ev_magnitude event) # rs)))"

text \<open>
  \<^verbatim>\<open>ComcatCatalog._get_catalog_as_ndarray\<close> reads \<^verbatim>\<open>self.catalog\<close>, which the setter
  has bound before it calls. \<^verbatim>\<open>len(None)\<close> raises \<^verbatim>\<open>TypeError\<close>; a row of an array has
  no attribute \<^verbatim>\<open>id\<close>.
\<close>

definition ComcatCatalog_get_catalog_as_ndarray ::
  "'r externals \<Rightarrow> nat \<Rightarrow> 'r world \<Rightarrow> py_error + 'r catalog_val" where
  "ComcatCatalog_get_catalog_as_ndarray ext self w =
     (case private_catalog (heap w self) of
        None \<Rightarrow> Inl TypeError
      | Some (PyList events) \<Rightarrow>
          (case comcat_rows ext events of
             Inl e \<Rightarrow> Inl e
           | Inr rs \<Rightarrow> Inr (Ndarray comcat_dtype rs))
      | Some (Ndarray dt []) \<Rightarrow> Inr (Ndarray comcat_dtype [])
      | Some (Ndarray dt (r # rs)) \<Rightarrow> Inl AttributeError)"

text \<open>
  \<^verbatim>\<open>self._get_catalog_as_ndarray()\<close>: only \<^verbatim>\<open>ComcatCatalog\<close> defines the method, so
  the lookup of the attribute raises \<^verbatim>\<open>AttributeError\<close> on an object of any other
  class.
\<close>

definition get_catalog_as_ndarray ::
  "'r externals \<Rightarrow> nat \<Rightarrow> 'r world \<Rightarrow> py_error + 'r catalog_val" where
  "get_catalog_as_ndarray ext self w =
     (case variant (heap w self) of
        ComcatCatalog \<Rightarrow> ComcatCatalog_get_catalog_as_ndarray ext self w
      | _ \<Rightarrow> Inl AttributeError)"

text \<open>The getter returns the attribute as it is.\<close>

definition catalog_getter :: "nat \<Rightarrow> 'r world \<Rightarrow> 'r catalog_val option" where
  "catalog_getter self w = private_catalog (heap w self)"

text \<open>
  The setter stores the value first, then converts a value that is neither \<^verbatim>\<open>None\<close>
  nor an \<^verbatim>\<open>ndarray\<close>. When the conversion raises, the value stored first stays.
\<close>

definition catalog_setter ::
  "'r externals \<Rightarrow> nat \<Rightarrow> 'r catalog_val option \<Rightarrow> 'r world \<Rightarrow> (py_error + unit) \<times> 'r world" where
  "catalog_setter ext self val w =
     (let w1 = upd self (\<lambda>ob. ob\<lparr>private_catalog := val\<rparr>) w
      in case val of
           None \<Rightarrow> (Inr (), w1)
         | Some (Ndarray dt rs) \<Rightarrow> (Inr (), w1)
         | Some (PyList events) \<Rightarrow>
             (case get_catalog_as_ndarray ext self w1 of
                Inl e \<Rightarrow> (Inl e, w1)
              | Inr a \<Rightarrow> (Inr (), upd self (\<lambda>ob. ob\<lparr>private_catalog := Some a\<rparr>) w1)))"

section \<open>Loading and construction\<close>

text \<open>
  \<^verbatim>\<open>ComcatCatalog.load_catalog(**kwargs)\<close>: one query to the remote search with the
  bounding box, the minimum magnitude and the time window of the object, then the
  event list goes through the setter. It returns \<^verbatim>\<open>self\<close>.
\<close>

definition ComcatCatalog_load_catalog ::
  "'r externals \<Rightarrow> nat \<Rightarrow> (string \<times> string) list \<Rightarrow> 'r world \<Rightarrow> (py_error + nat) \<times> 'r world" where
  "ComcatCatalog_load_catalog ext self kwargs w =
     (case (region (heap w self), start_time (heap w self), end_time (heap w self)) of
        (Some rg, Some st, Some en) \<Rightarrow>
          (let q = \<lparr>q_region = rg, q_starttime = st, q_endtime = en, q_extra = kwargs\<rparr>;
               w1 = w\<lparr>trace := trace w @ [Search q]\<rparr>
           in case search ext q of
                Inl e \<Rightarrow> (Inl e, w1)
              | Inr eventlist \<Rightarrow>
                  (case catalog_setter ext self (Some (PyList eventlist)) w1 of
                     (Inl e, w2) \<Rightarrow> (Inl e, w2)
                   | (Inr u, w2) \<Rightarrow> (Inr self, w2)))
      | _ \<Rightarrow> (Inl AttributeError, w))"

text \<open>
  \<^verbatim>\<open>self.load_catalog()\<close>: the call is recorded in the trace, then the method of the
  object's class runs. \<^verbatim>\<open>BaseCatalog.load_catalog\<close> raises
  \<^verbatim>\<open>NotImplementedError\<close>, and neither \<^verbatim>\<open>CSEPCatalog\<close> nor \<^verbatim>\<open>UCERF3Catalog\<close>
  overrides it.
\<close>

definition load_catalog ::
  "'r externals \<Rightarrow> nat \<Rightarrow> 'r world \<Rightarrow> (py_error + nat) \<times> 'r world" where
  "load_catalog ext self w =
     (let w0 = w\<lparr>trace := trace w @ [Call_load_catalog self]\<rparr>
      in case variant (heap w self) of
           ComcatCatalog \<Rightarrow> ComcatCatalog_load_catalog ext self [] w0
         | _ \<Rightarrow> (Inl NotImplementedError, w0))"

text \<open>
  The parameters of \<^verbatim>\<open>BaseCatalog.__init__\<close>; \<open>base_defaults\<close> are their defaults.
\<close>

record 'r base_args =
  a_filename :: "string option"
  a_catalog :: "'r catalog_val option"
  a_catalog_id :: "py_id option"
  a_format :: "string option"
  a_name :: "string option"
  a_lazy_load :: bool

definition base_defaults :: "'r base_args" where
  "base_defaults =
     \<lparr>a_filename = None, a_catalog = None, a_catalog_id = None, a_format = None,
      a_name = None, a_lazy_load = True\<rparr>"

definition BaseCatalog_init ::
  "'r externals \<Rightarrow> nat \<Rightarrow> 'r base_args \<Rightarrow> 'r world \<Rightarrow> (py_error + unit) \<times> 'r world" where
  "BaseCatalog_init ext self args w =
     (let w1 = upd self (\<lambda>ob. ob\<lparr>filename := a_filename args, catalog_id := a_catalog_id args,
                                  format := a_format args, name := a_name args\<rparr>) w
      in case catalog_setter ext self (a_catalog args) w1 of
           (Inl e, w2) \<Rightarrow> (Inl e, w2)
         | (Inr u, w2) \<Rightarrow>
             if \<not> a_lazy_load args \<and> catalog_getter self w2 = None
             then (case load_catalog ext self w2 of
                     (Inl e, w3) \<Rightarrow> (Inl e, w3)
                   | (Inr r, w3) \<Rightarrow> (Inr (), w3))
             else (Inr (), w2))"

text \<open>
  \<^verbatim>\<open>CSEPCatalog.__init__\<close> does not call the constructor of the base class: it
  assigns the file name, the identifier, the catalog (through the setter) and its
  dtype, and reads neither \<^verbatim>\<open>format\<close> nor \<^verbatim>\<open>lazy_load\<close>. \<^verbatim>\<open>numpy.float32\<close> and
  \<^verbatim>\<open>numpy.int32\<close> are four bytes wide, in the byte order of the machine.
\<close>

definition csep_dtype_decl :: dtype where
  "csep_dtype_decl =
     [(''longitude'', NpFloat LE 4), (''latitude'', NpFloat LE 4), (''year'', NpInt LE 4),
      (''month'', NpInt LE 4), (''day'', NpInt LE 4), (''magnitude'', NpFloat LE 4),
      (''depth'', NpFloat LE 4), (''hour'', NpInt LE 4), (''minute'', NpInt LE 4),
      (''second'', NpInt LE 4)]"

definition CSEPCatalog_init ::
  "'r externals \<Rightarrow> nat \<Rightarrow> 'r base_args \<Rightarrow> 'r world \<Rightarrow> (py_error + unit) \<times> 'r world" where
  "CSEPCatalog_init ext self args w =
     (let w1 = upd self (\<lambda>ob. ob\<lparr>filename := a_filename args,
                                  catalog_id := a_catalog_id args\<rparr>) w
      in case catalog_setter ext self (a_catalog args) w1 of
           (Inl e, w2) \<Rightarrow> (Inl e, w2)
         | (Inr u, w2) \<Rightarrow> (Inr (), upd self (\<lambda>ob. ob\<lparr>csep_dtype := Some csep_dtype_decl\<rparr>) w2))"

text \<open>
  The parameters of \<^verbatim>\<open>ComcatCatalog.__init__\<close>. \<open>c_kwargs\<close> are the keyword
  arguments it hands to \<^verbatim>\<open>BaseCatalog.__init__\<close>; \<^verbatim>\<open>catalog_id\<close> is a parameter of
  its own, so it is never among them and the base constructor sees its default,
  \<^verbatim>\<open>None\<close>. \<^verbatim>\<open>limit\<close> is not read.
\<close>

record 'r comcat_args =
  c_region :: region
  c_limit :: int
  c_start_time :: "datetime option"
  c_end_time :: "datetime option"
  c_start_epoch :: "fval option"
  c_duration_in_years :: "fval option"
  c_catalog_id :: "py_id option"
  c_kwargs :: "'r base_args"

text \<open>
  \<^verbatim>\<open>start_time or epoch_time_to_utc_datetime(start_epoch)\<close>: a \<^verbatim>\<open>datetime\<close> is always
  true, so the right operand is evaluated only when \<^verbatim>\<open>start_time\<close> is \<^verbatim>\<open>None\<close>. The
  constructor has checked before that one of the two is not \<^verbatim>\<open>None\<close>; the last case
  is a call of the time utility on \<^verbatim>\<open>None\<close>.
\<close>

definition resolve_start ::
  "'r externals \<Rightarrow> datetime option \<Rightarrow> fval option \<Rightarrow> py_error + datetime" where
  "resolve_start ext st ep =
     (case st of
        Some t \<Rightarrow> Inr t
      | None \<Rightarrow> (case ep of Some x \<Rightarrow> epoch_time_to_utc_datetime ext x | None \<Rightarrow> Inl TypeError))"

text \<open>
  \<^verbatim>\<open>end_time or self.start_time + timedelta_from_years(duration_in_years)\<close>.
\<close>

definition resolve_end ::
  "'r externals \<Rightarrow> datetime \<Rightarrow> datetime option \<Rightarrow> fval option \<Rightarrow> py_error + datetime" where
  "resolve_end ext st en dur =
     (case en of
        Some t \<Rightarrow> Inr t
      | None \<Rightarrow>
          (case dur of
             Some y \<Rightarrow>
               (case timedelta_from_years ext y of
                  Inl e \<Rightarrow> Inl e
                | Inr d \<Rightarrow> datetime_add st d)
           | None \<Rightarrow> Inl TypeError))"

definition ComcatCatalog_init ::
  "'r externals \<Rightarrow> nat \<Rightarrow> 'r comcat_args \<Rightarrow> 'r world \<Rightarrow> (py_error + unit) \<times> 'r world" where
  "ComcatCatalog_init ext self args w =
     (let w1 = upd self (\<lambda>ob. ob\<lparr>region := Some (c_region args),
                                  catalog_id := c_catalog_id args\<rparr>) w
      in if c_start_time args = None \<and> c_start_epoch args = None then (Inl ValueError, w1)
         else if c_end_time args = None \<and> c_duration_in_years args = None
         then (Inl ValueError, w1)
         else
           (case resolve_start ext (c_start_time args) (c_start_epoch args) of
              Inl e \<Rightarrow> (Inl e, w1)
            | Inr st \<Rightarrow>
                (let w2 = upd self (\<lambda>ob. ob\<lparr>start_time := Some st\<rparr>) w1
                 in case resolve_end ext st (c_end_time args) (c_duration_in_years args) of
                      Inl e \<Rightarrow> (Inl e, w2)
                    | Inr en \<Rightarrow>
                        (let w3 = upd self (\<lambda>ob. ob\<lparr>end_time := Some en\<rparr>) w2
                         in if en < st then (Inl ValueError, w3)
                            else BaseCatalog_init ext self
                                   ((c_kwargs args)\<lparr>a_catalog_id := None\<rparr>) w3))))"

text \<open>
  A call of a class: a new object, then the constructor of the class on it. The
  reference of the new object is the result.
\<close>

definition new_BaseCatalog ::
  "'r externals \<Rightarrow> variant \<Rightarrow> 'r base_args \<Rightarrow> 'r world \<Rightarrow> (py_error + nat) \<times> 'r world" where
  "new_BaseCatalog ext cls args w =
     (case new_object cls w of
        (self, w1) \<Rightarrow>
          (case BaseCatalog_init ext self args w1 of
             (Inl e, w2) \<Rightarrow> (Inl e, w2)
           | (Inr u, w2) \<Rightarrow> (Inr self, w2)))"

definition new_CSEPCatalog ::
  "'r externals \<Rightarrow> 'r base_args \<Rightarrow> 'r world \<Rightarrow> (py_error + nat) \<times> 'r world" where
  "new_CSEPCatalog ext args w =
     (case new_object CSEPCatalog w of
        (self, w1) \<Rightarrow>
          (case CSEPCatalog_init ext self args w1 of
             (Inl e, w2) \<Rightarrow> (Inl e, w2)
           | (Inr u, w2) \<Rightarrow> (Inr self, w2)))"

definition new_ComcatCatalog ::
  "'r externals \<Rightarrow> 'r comcat_args \<Rightarrow> 'r world \<Rightarrow> (py_error + nat) \<times> 'r world" where
  "new_ComcatCatalog ext args w =
     (case new_object ComcatCatalog w of
        (self, w1) \<Rightarrow>
          (case ComcatCatalog_init ext self args w1 of
             (Inl e, w2) \<Rightarrow> (Inl e, w2)
           | (Inr u, w2) \<Rightarrow> (Inr self, w2)))"

section \<open>Counting events\<close>

text \<open>\<^verbatim>\<open>len\<close> of what the attribute holds.\<close>

fun len :: "'r catalog_val \<Rightarrow> nat" where
  "len (Ndarray dt rs) = length rs"
| "len (PyList events) = length events"

definition BaseCatalog_get_number_of_events :: "nat \<Rightarrow> 'r world \<Rightarrow> nat" where
  "BaseCatalog_get_number_of_events self w =
     (case catalog_getter self w of
        Some c \<Rightarrow> len c
      | None \<Rightarrow> 0)"

text \<open>
  \<^verbatim>\<open>numpy.ones(n)\<close> is an array of \<open>n\<close> float64 ones; \<^verbatim>\<open>numpy.cumsum\<close> is the array
  of the running sums.
\<close>

definition np_ones :: "nat \<Rightarrow> fval list" where
  "np_ones n = replicate n (Finite 1)"

fun cumsum_from :: "fval \<Rightarrow> fval list \<Rightarrow> fval list" where
  "cumsum_from acc [] = []"
| "cumsum_from acc (x # xs) = f_add acc x # cumsum_from (f_add acc x) xs"

definition np_cumsum :: "fval list \<Rightarrow> fval list" where
  "np_cumsum xs = cumsum_from (Finite 0) xs"

definition BaseCatalog_get_cumulative_number_of_events :: "nat \<Rightarrow> 'r world \<Rightarrow> fval list" where
  "BaseCatalog_get_cumulative_number_of_events self w =
     (let num_events = BaseCatalog_get_number_of_events self w
      in np_cumsum (np_ones num_events))"

section \<open>Filtering\<close>

text \<open>\<^verbatim>\<open>statement.split(' ')\<close>: a new token starts after every single space.\<close>

fun split_sp :: "string \<Rightarrow> string list" where
  "split_sp [] = [[]]"
| "split_sp (c # cs) =
     (if c = CHR '' '' then [] # split_sp cs
      else (case split_sp cs of
              [] \<Rightarrow> [[c]]
            | t # ts \<Rightarrow> (c # t) # ts))"

text \<open>
  The five functions of Python's \<^verbatim>\<open>operator\<close> module that \<^verbatim>\<open>filter\<close> uses, the
  dictionary \<^verbatim>\<open>operators\<close> of \<^verbatim>\<open>filter\<close>, and what each function computes on two
  floats.
\<close>

datatype py_operator = Op_gt | Op_lt | Op_ge | Op_le | Op_eq

definition operators :: "string \<rightharpoonup> py_operator" where
  "operators = [''>'' \<mapsto> Op_gt, ''<'' \<mapsto> Op_lt, ''>='' \<mapsto> Op_ge, ''<='' \<mapsto> Op_le, ''=='' \<mapsto> Op_eq]"

definition f_gt :: "fval \<Rightarrow> fval \<Rightarrow> bool" where
  "f_gt a b = f_lt b a"

definition f_le :: "fval \<Rightarrow> fval \<Rightarrow> bool" where
  "f_le a b = (f_lt a b \<or> f_eq a b)"

definition f_ge :: "fval \<Rightarrow> fval \<Rightarrow> bool" where
  "f_ge a b = f_le b a"

fun float_compare :: "py_operator \<Rightarrow> fval \<Rightarrow> fval \<Rightarrow> bool" where
  "float_compare Op_gt a b = f_gt a b"
| "float_compare Op_lt a b = f_lt a b"
| "float_compare Op_ge a b = f_ge a b"
| "float_compare Op_le a b = f_le a b"
| "float_compare Op_eq a b = f_eq a b"

text \<open>
  \<^verbatim>\<open>self.catalog[name]\<close>: the column of a field of a structured array. A column of
  integers or floats is kept as the values numpy compares, with the type code of the
  field; of a column of byte strings (\<^verbatim>\<open>'S256'\<close>) only the length matters to a
  comparison with a float. An array without the field raises \<^verbatim>\<open>ValueError\<close> (numpy:
  no field of that name); \<^verbatim>\<open>None\<close> and a list cannot be indexed by a string.
\<close>

datatype column = NumColumn np_code "fval list" | BytesColumn nat

definition getitem_field ::
  "'r externals \<Rightarrow> 'r catalog_val option \<Rightarrow> string \<Rightarrow> py_error + column" where
  "getitem_field ext c nm =
     (case c of
        None \<Rightarrow> Inl TypeError
      | Some (PyList events) \<Rightarrow> Inl TypeError
      | Some (Ndarray dt rs) \<Rightarrow>
          (case map_of dt nm of
             None \<Rightarrow> Inl ValueError
           | Some (NpBytes k) \<Rightarrow> Inr (BytesColumn (length rs))
           | Some code \<Rightarrow> Inr (NumColumn code (map (np_column ext nm) rs))))"

text \<open>
  \<^verbatim>\<open>operators[type](column, value)\<close> with a Python float as the value: numpy compares
  a numeric column element by element. A column of byte strings has no order
  comparison with a float, \<^verbatim>\<open>TypeError\<close> is raised; its \<^verbatim>\<open>==\<close> with a float is false
  at every row (older numpy answers with the scalar \<^verbatim>\<open>False\<close>, of which
  \<^verbatim>\<open>numpy.where\<close> has no index either).
\<close>

definition np_compare ::
  "'r externals \<Rightarrow> py_operator \<Rightarrow> column \<Rightarrow> fval \<Rightarrow> py_error + bool list" where
  "np_compare ext opr col v =
     (case col of
        NumColumn code xs \<Rightarrow> Inr (map (\<lambda>x. float_compare opr x (np_scalar ext code v)) xs)
      | BytesColumn n \<Rightarrow> if opr = Op_eq then Inr (replicate n False) else Inl TypeError)"

text \<open>
  \<^verbatim>\<open>numpy.where(mask)\<close> is the indices at which the mask is true, ascending;
  \<^verbatim>\<open>array[idx]\<close> is the rows at these indices, in the order of the indices.
\<close>

definition np_where :: "bool list \<Rightarrow> nat list" where
  "np_where flags = [i \<leftarrow> [0..<length flags]. flags ! i]"

definition getitem_idx :: "'r list \<Rightarrow> nat list \<Rightarrow> 'r list" where
  "getitem_idx rs idx = map (\<lambda>i. rs ! i) idx"

text \<open>
  \<^verbatim>\<open>BaseCatalog.filter(statement)\<close>. Python evaluates \<^verbatim>\<open>operators[type]\<close> first,
  then \<^verbatim>\<open>self.catalog[name]\<close>, then \<^verbatim>\<open>float(value)\<close>, then the call of the operator;
  unpacking a split that has not three tokens raises \<^verbatim>\<open>ValueError\<close>. The assignment
  to \<^verbatim>\<open>self.catalog\<close> is the only statement that changes the object.
\<close>

definition BaseCatalog_filter ::
  "'r externals \<Rightarrow> nat \<Rightarrow> string \<Rightarrow> 'r world \<Rightarrow> (py_error + nat) \<times> 'r world" where
  "BaseCatalog_filter ext self statement w =
     (case split_sp statement of
        [name', type', value'] \<Rightarrow>
          (case operators type' of
             None \<Rightarrow> (Inl KeyError, w)
           | Some opr \<Rightarrow>
               (case getitem_field ext (catalog_getter self w) name' of
                  Inl e \<Rightarrow> (Inl e, w)
                | Inr col \<Rightarrow>
                    (case py_float ext value' of
                       None \<Rightarrow> (Inl ValueError, w)
                     | Some v \<Rightarrow>
                         (case np_compare ext opr col v of
                            Inl e \<Rightarrow> (Inl e, w)
                          | Inr flags \<Rightarrow>
                              (let idx = np_where flags
                               in case catalog_getter self w of
                                    Some (Ndarray dt rs) \<Rightarrow>
                                      (case catalog_setter ext self
                                              (Some (Ndarray dt (getitem_idx rs idx))) w of
                                         (Inl e, w') \<Rightarrow> (Inl e, w')
                                       | (Inr u, w') \<Rightarrow> (Inr self, w'))
                                  | _ \<Rightarrow> (Inl TypeError, w))))))
      | _ \<Rightarrow> (Inl ValueError, w))"



section \<open>The merged UCERF3 file\<close>

text \<open>
  The keyword arguments that \<^verbatim>\<open>load_catalogs\<close> hands on to the constructor of each
  catalog. \<^verbatim>\<open>filename\<close>, \<^verbatim>\<open>catalog\<close> and \<^verbatim>\<open>catalog_id\<close> are given by the loader
  itself.
\<close>

record load_kwargs =
  k_format :: "string option"
  k_name :: "string option"
  k_lazy_load :: bool

text \<open>
  \<^verbatim>\<open>load_catalogs\<close> is a generator. Nothing of its body runs before the first
  \<^verbatim>\<open>next\<close>; between two calls it is suspended at its \<^verbatim>\<open>yield\<close>, holding the open
  file (its unread bytes), the index of the loop and the number of catalogs read from
  the head of the file; after a \<^verbatim>\<open>return\<close> or an exception it is finished.
\<close>

datatype gen_state =
    Created "string option" load_kwargs
  | Running string load_kwargs "byte list" nat int
  | Finished

datatype gen_out = Yield nat | Raise py_error | StopIteration

text \<open>
  One turn of the loop \<^verbatim>\<open>for catalog_id in range(number_simulations_in_set)\<close>, from
  the test of the range to the \<^verbatim>\<open>yield\<close>. \<^verbatim>\<open>header['catalog_size'][0]\<close> raises
  \<^verbatim>\<open>IndexError\<close> when the read of the header returned no item.
\<close>

definition load_catalogs_iter ::
  "(byte list) externals \<Rightarrow> string \<Rightarrow> load_kwargs \<Rightarrow> byte list \<Rightarrow> nat \<Rightarrow> int \<Rightarrow>
   (byte list) world \<Rightarrow> gen_out \<times> gen_state \<times> (byte list) world" where
  "load_catalogs_iter ext fn kw bs cid n w =
     (if int cid < n then
        (case fromfile (itemsize header_dtype) 1 bs of
           ([], bs1) \<Rightarrow> (Raise IndexError, Finished, w)
         | (header # hs, bs1) \<Rightarrow>
             (case int_field header_dtype ''catalog_size'' header of
                None \<Rightarrow> (Raise ValueError, Finished, w)
              | Some catalog_size \<Rightarrow>
                  (case fromfile (itemsize event_dtype) catalog_size bs1 of
                     (catalog, bs2) \<Rightarrow>
                       (case new_BaseCatalog ext UCERF3Catalog
                               \<lparr>a_filename = Some fn,
                                a_catalog = Some (Ndarray event_dtype catalog),
                                a_catalog_id = Some (IdInt (int cid)),
                                a_format = k_format kw, a_name = k_name kw,
                                a_lazy_load = k_lazy_load kw\<rparr> w of
                          (Inl e, w1) \<Rightarrow> (Raise e, Finished, w1)
                        | (Inr u3_catalog, w1) \<Rightarrow>
                            (Yield u3_catalog, Running fn kw bs2 (Suc cid) n, w1)))))
      else (StopIteration, Finished, w))"

text \<open>
  One \<^verbatim>\<open>next\<close> on the generator. The first opens the file (\<^verbatim>\<open>open(None)\<close> raises
  \<^verbatim>\<open>TypeError\<close>, a missing file \<^verbatim>\<open>OSError\<close>) and reads the number of catalogs,
  \<^verbatim>\<open>numpy.fromfile(catalog_file, dtype='>i4', count=1)[0]\<close>, before it enters the
  loop.
\<close>

definition load_catalogs_next ::
  "(byte list) externals \<Rightarrow> gen_state \<Rightarrow> (byte list) world \<Rightarrow>
   gen_out \<times> gen_state \<times> (byte list) world" where
  "load_catalogs_next ext g w =
     (case g of
        Finished \<Rightarrow> (StopIteration, Finished, w)
      | Running fn kw bs cid n \<Rightarrow> load_catalogs_iter ext fn kw bs cid n w
      | Created None kw \<Rightarrow> (Raise TypeError, Finished, w)
      | Created (Some fn) kw \<Rightarrow>
          (case files w fn of
             None \<Rightarrow> (Raise OSError, Finished, w)
           | Some bs \<Rightarrow>
               (case fromfile 4 1 bs of
                  ([], bs1) \<Rightarrow> (Raise IndexError, Finished, w)
                | (item # items, bs1) \<Rightarrow> load_catalogs_iter ext fn kw bs1 0 (be_sint item) w)))"

text \<open>\<open>k\<close> calls of \<^verbatim>\<open>next\<close> in a row: what each returned, and where they leave.\<close>

fun gen_run ::
  "(byte list) externals \<Rightarrow> nat \<Rightarrow> gen_state \<Rightarrow> (byte list) world \<Rightarrow>
   gen_out list \<times> gen_state \<times> (byte list) world" where
  "gen_run ext 0 g w = ([], g, w)"
| "gen_run ext (Suc k) g w =
     (case load_catalogs_next ext g w of
        (out, g1, w1) \<Rightarrow>
          (case gen_run ext k g1 w1 of
             (outs, g2, w2) \<Rightarrow> (out # outs, g2, w2)))"

text \<open>
  The layout of a well-formed merged file, as the format is documented: the number of
  catalogs as a big-endian int32, then for each catalog its header (a two-byte file
  version, the number of its records as a big-endian int32) and its records, each of
  the item size of \<open>event_dtype\<close>. \<open>be_bytes k n\<close> is the \<open>k\<close> bytes of \<open>n\<close>, the
  most significant first.
\<close>

fun be_bytes :: "nat \<Rightarrow> nat \<Rightarrow> byte list" where
  "be_bytes 0 n = []"
| "be_bytes (Suc k) n = be_bytes k (n div 256) @ [of_nat n]"

definition merged_catalog :: "nat \<times> byte list list \<Rightarrow> byte list" where
  "merged_catalog c = be_bytes 2 (fst c) @ be_bytes 4 (length (snd c)) @ concat (snd c)"

definition merged_file :: "(nat \<times> byte list list) list \<Rightarrow> byte list" where
  "merged_file cats = be_bytes 4 (length cats) @ concat (map merged_catalog cats)"

definition well_formed :: "(nat \<times> byte list list) list \<Rightarrow> bool" where
  "well_formed cats =
     (length cats < 2 ^ 31 \<and>
      list_all (\<lambda>c. length (snd c) < 2 ^ 31 \<and>
                    list_all (\<lambda>r. length r = itemsize event_dtype) (snd c)) cats)"

text \<open>The object that \<^verbatim>\<open>load_catalogs\<close> builds for the catalog at position \<open>i\<close>.\<close>

definition u3_object ::
  "string \<Rightarrow> load_kwargs \<Rightarrow> nat \<Rightarrow> byte list list \<Rightarrow> (byte list) catalog_obj" where
  "u3_object fn kw i recs =
     (blank UCERF3Catalog)
       \<lparr>filename := Some fn, catalog_id := Some (IdInt (int i)), format := k_format kw,
        name := k_name kw, private_catalog := Some (Ndarray event_dtype recs)\<rparr>"

text \<open>
  The store after the loader has built its catalogs: \<open>allocate\<close> puts a new object
  at the next free reference, \<open>store_catalogs\<close> the objects of the catalogs of a
  file one after the other, the first with the identifier \<open>i\<close>.
\<close>

definition allocate :: "(byte list) catalog_obj \<Rightarrow> (byte list) world \<Rightarrow> (byte list) world" where
  "allocate ob w = w\<lparr>heap := (heap w)(next_ref w := ob), next_ref := Suc (next_ref w)\<rparr>"

fun store_catalogs ::
  "string \<Rightarrow> load_kwargs \<Rightarrow> nat \<Rightarrow> (nat \<times> byte list list) list \<Rightarrow> (byte list) world \<Rightarrow>
   (byte list) world" where
  "store_catalogs fn kw i [] w = w"
| "store_catalogs fn kw i (c # cs) w =
     store_catalogs fn kw (Suc i) cs (allocate (u3_object fn kw i (snd c)) w)"

section \<open>Example inputs\<close>

text \<open>
  Concrete collaborators, stores and files, on which the theorems below are
  evaluated. The remote search of the example answers every query with one event;
  \<^verbatim>\<open>float\<close> is given on the two literals the examples use.
\<close>

definition example_event :: comcat_event where
  "example_event =
     \<lparr>ev_id = ''ci1'', ev_time = 0, ev_latitude = Finite 34, ev_longitude = Finite (-118),
      ev_depth = Finite 10, ev_magnitude = Finite 4\<rparr>"

definition example_ext ::
  "(string \<times> fval \<times> fval \<times> fval \<times> fval \<times> fval \<Rightarrow> 'r) \<Rightarrow> (string \<Rightarrow> 'r \<Rightarrow> fval) \<Rightarrow>
   'r externals" where
  "example_ext row col =
     \<lparr>epoch_time_to_utc_datetime = (\<lambda>x. Inr 1000),
      timedelta_from_years = (\<lambda>y. Inr 500),
      datetime_to_utc_epoch = (\<lambda>t. Inr (Finite 0)),
      search = (\<lambda>q. Inr [example_event]),
      np_row = row,
      np_column = col,
      np_scalar = (\<lambda>code v. v),
      py_float = (\<lambda>s. if s = ''4.0'' then Some (Finite 4)
                       else if s = ''10.0'' then Some (Finite 10) else None)\<rparr>"

text \<open>
  A store whose rows are one magnitude each: the catalog of every object holds the
  magnitudes 3.0, 4.0 and 5.5.
\<close>

definition magnitude_ext :: "fval externals" where
  "magnitude_ext = example_ext (\<lambda>t. snd (snd (snd (snd (snd t))))) (\<lambda>nm r. r)"

definition magnitude_world :: "fval world" where
  "magnitude_world =
     \<lparr>heap = (\<lambda>r. (blank UCERF3Catalog)
                \<lparr>private_catalog :=
                   Some (Ndarray [(''magnitude'', NpFloat BE 8)]
                           [Finite 3, Finite 4, Finite (11 / 2)])\<rparr>),
      next_ref = 1, files = (\<lambda>f. None), trace = []\<rparr>"

definition unbound_world :: "fval world" where
  "unbound_world =
     \<lparr>heap = (\<lambda>r. blank UCERF3Catalog), next_ref = 1, files = (\<lambda>f. None), trace = []\<rparr>"

text \<open>
  A store of \<^verbatim>\<open>ComcatCatalog\<close> objects whose catalog holds one row of the dtype of
  the remote service: a row is the tuple of its six fields, the first a byte string.
\<close>

type_synonym comcat_row = "string \<times> fval \<times> fval \<times> fval \<times> fval \<times> fval"

definition comcat_field :: "string \<Rightarrow> comcat_row \<Rightarrow> fval" where
  "comcat_field nm r =
     (case r of (i, t, la, lo, d, m) \<Rightarrow>
        if nm = ''epoch_time'' then t else if nm = ''latitude'' then la
        else if nm = ''longitude'' then lo else if nm = ''depth'' then d else m)"

definition comcat_ext :: "comcat_row externals" where
  "comcat_ext = example_ext (\<lambda>t. t) comcat_field"

definition comcat_world :: "comcat_row world" where
  "comcat_world =
     \<lparr>heap = (\<lambda>r. (blank ComcatCatalog)
                \<lparr>private_catalog :=
                   Some (Ndarray comcat_dtype
                           [(''ci1'', Finite 0, Finite 34, Finite (-118), Finite 10, Finite 4)])\<rparr>),
      next_ref = 1, files = (\<lambda>f. None), trace = []\<rparr>"

text \<open>
  The arguments of a \<^verbatim>\<open>ComcatCatalog\<close> with the default region, an explicit start
  and end instant, and the keyword arguments of the base class at their defaults.
\<close>

definition example_region :: region where
  "example_region =
     \<lparr>min_magnitude = Finite (51 / 20), min_latitude = Finite (63 / 2),
      max_latitude = Finite 43, min_longitude = Finite (- 627 / 5),
      max_longitude = Finite (- 1131 / 10)\<rparr>"

definition example_comcat_args :: "fval comcat_args" where
  "example_comcat_args =
     \<lparr>c_region = example_region, c_limit = 20000, c_start_time = Some 100,
      c_end_time = Some 200, c_start_epoch = None, c_duration_in_years = None,
      c_catalog_id = Some (IdStr ''Comcat''), c_kwargs = base_defaults\<rparr>"

text \<open>
  A merged file of two catalogs, the first of one record and the second of none, and
  a file whose only catalog declares two records and holds one and a half.
\<close>

definition example_kwargs :: load_kwargs where
  "example_kwargs = \<lparr>k_format = None, k_name = None, k_lazy_load = True\<rparr>"

definition u3_ext :: "(byte list) externals" where
  "u3_ext = example_ext (\<lambda>t. []) (\<lambda>nm r. Finite 0)"

definition example_catalogs :: "(nat \<times> byte list list) list" where
  "example_catalogs = [(1, [replicate 70 7]), (1, [])]"

definition merged_world :: "(byte list) world" where
  "merged_world =
     \<lparr>heap = (\<lambda>r. blank BaseCatalog), next_ref = 0,
      files = (\<lambda>f. if f = ''merged.bin'' then Some (merged_file example_catalogs) else None),
      trace = []\<rparr>"

definition truncated_world :: "(byte list) world" where
  "truncated_world =
     \<lparr>heap = (\<lambda>r. blank BaseCatalog), next_ref = 0,
      files = (\<lambda>f. if f = ''merged.bin''
                    then Some (be_bytes 4 1 @ be_bytes 2 1 @ be_bytes 4 2 @ replicate 105 7)
                    else None),
      trace = []\<rparr>"

section \<open>Properties\<close>

subsection \<open>Reading items\<close>

lemma itemsize_event_dtype: "itemsize event_dtype = 70"
  by (simp add: itemsize_def event_dtype_def)

lemma itemsize_header_dtype: "itemsize header_dtype = 6"
  by (simp add: itemsize_def header_dtype_def)

lemma length_chunks: "length (chunks k n bs) = n"
  by (induction n arbitrary: bs) auto

lemma concat_chunks: "n * k \<le> length bs \<Longrightarrow> concat (chunks k n bs) = take (n * k) bs"
proof (induction n arbitrary: bs)
  case 0
  then show ?case by simp
next
  case (Suc n)
  from Suc.prems have "n * k \<le> length (drop k bs)" by simp
  then have "concat (chunks k n (drop k bs)) = take (n * k) (drop k bs)" by (rule Suc.IH)
  then show ?case by (simp add: take_add add.commute)
qed

lemma chunks_item_length:
  "n * k \<le> length bs \<Longrightarrow> list_all (\<lambda>r. length r = k) (chunks k n bs)"
proof (induction n arbitrary: bs)
  case 0
  then show ?case by simp
next
  case (Suc n)
  from Suc.prems have a: "n * k \<le> length (drop k bs)" and b: "k \<le> length bs" by simp_all
  show ?case using Suc.IH [OF a] b by simp
qed

lemma chunks_concat:
  "list_all (\<lambda>r. length r = k) rs \<Longrightarrow> chunks k (length rs) (concat rs @ rest) = rs"
  by (induction rs) auto

lemma length_concat_items:
  "list_all (\<lambda>r. length r = k) rs \<Longrightarrow> length (concat rs) = length rs * k"
  by (induction rs) auto

lemma fromfile_exact:
  assumes "0 < k" and "n * k \<le> length bs"
  shows "fromfile k (int n) bs = (chunks k n bs, drop (n * k) bs)"
proof -
  from assms have "n \<le> length bs div k"
    by (simp add: less_eq_div_iff_mult_less_eq)
  then show ?thesis by (simp add: fromfile_def Let_def min_def)
qed

lemma fromfile_short:
  assumes "0 < k" and "length bs < n * k"
  shows "fromfile k (int n) bs = (chunks k (length bs div k) bs, [])"
proof -
  from assms have "length bs div k < n"
    by (simp add: div_less_iff_less_mult)
  then show ?thesis by (simp add: fromfile_def Let_def min_def)
qed

lemma fromfile_items:
  assumes "0 < k" and "list_all (\<lambda>r. length r = k) rs"
  shows "fromfile k (int (length rs)) (concat rs @ rest) = (rs, rest)"
proof -
  have len: "length (concat rs) = length rs * k" using assms(2) by (rule length_concat_items)
  then have "length rs * k \<le> length (concat rs @ rest)" by simp
  with assms(1) have "fromfile k (int (length rs)) (concat rs @ rest)
      = (chunks k (length rs) (concat rs @ rest), drop (length rs * k) (concat rs @ rest))"
    by (rule fromfile_exact)
  then show ?thesis using len chunks_concat [OF assms(2)] by simp
qed

text \<open>
  The widths of the twelve fields of \<open>event_dtype\<close> add up to 70, not 68: a body of
  68 bytes does not hold one record.
\<close>

theorem event_record_not_68_bytes:
  "itemsize event_dtype \<noteq> 68 \<and> fromfile (itemsize event_dtype) 1 (replicate 68 0) = ([], [])"
  by (simp add: itemsize_event_dtype fromfile_def)

text \<open>
  Claim C4, as amended: each event record in the twelve-field schema (int32
  rupture_id, int32 parent_id, int16 generation, int64 origin_time, five float64
  fields, three int32 index fields, all big-endian, packed) occupies exactly 70 bytes,
  so a catalog body of \<open>n\<close> records that the file holds in full is read as \<open>n\<close>
  items of 70 bytes each, the first \<open>n * 70\<close> bytes of what was unread, and the read
  stops right behind them.
\<close>

theorem event_record_70_bytes:
  assumes "n * 70 \<le> length bs"
  shows "itemsize event_dtype = 70 \<and>
         (case fromfile (itemsize event_dtype) (int n) bs of
            (catalog, rest) \<Rightarrow>
              length catalog = n \<and> list_all (\<lambda>r. length r = 70) catalog \<and>
              concat catalog = take (n * 70) bs \<and> rest = drop (n * 70) bs)"
  using assms
  by (simp add: itemsize_event_dtype fromfile_exact length_chunks concat_chunks chunks_item_length)

text \<open>Two records read from 150 bytes.\<close>

theorem event_record_70_bytes_witness:
  "2 * 70 \<le> length (replicate 150 (0::byte)) \<and> itemsize event_dtype = 70 \<and>
   (case fromfile (itemsize event_dtype) (int 2) (replicate 150 0) of
      (catalog, rest) \<Rightarrow>
        length catalog = 2 \<and> list_all (\<lambda>r. length r = 70) catalog \<and>
        concat catalog = take (2 * 70) (replicate 150 0) \<and> rest = drop (2 * 70) (replicate 150 0))"
  using event_record_70_bytes [of 2 "replicate 150 0"] by (simp add: itemsize_event_dtype)

subsection \<open>Counting events\<close>

lemma cumsum_from_ones:
  "cumsum_from (Finite (of_nat a)) (replicate n (Finite 1))
     = map (\<lambda>k. Finite (of_nat k)) [Suc a..<Suc (a + n)]"
proof (induction n arbitrary: a)
  case 0
  then show ?case by simp
next
  case (Suc n)
  have step: "f_add (Finite (of_nat a)) (Finite 1) = Finite (of_nat (Suc a))"
    by (simp add: add.commute)
  have upt: "[Suc a..<Suc (a + Suc n)] = Suc a # [Suc (Suc a)..<Suc (Suc a + n)]"
    by (simp add: upt_conv_Cons)
  have "cumsum_from (Finite (of_nat a)) (replicate (Suc n) (Finite 1))
      = Finite (of_nat (Suc a)) # cumsum_from (Finite (of_nat (Suc a))) (replicate n (Finite 1))"
    by (simp only: replicate_Suc cumsum_from.simps step)
  also have "\<dots> = Finite (of_nat (Suc a)) # map (\<lambda>k. Finite (of_nat k)) [Suc (Suc a)..<Suc (Suc a + n)]"
    by (simp only: Suc.IH)
  also have "\<dots> = map (\<lambda>k. Finite (of_nat k)) [Suc a..<Suc (a + Suc n)]"
    by (simp only: upt list.map)
  finally show ?case .
qed

lemma np_cumsum_ones: "np_cumsum (np_ones n) = map (\<lambda>k. Finite (of_nat k)) [1..<Suc n]"
  using cumsum_from_ones [of 0 n] by (simp add: np_cumsum_def np_ones_def)

text \<open>
  Claim C8: for every catalog whose record sequence is bound and has \<open>N\<close> rows,
  \<^verbatim>\<open>get_number_of_events()\<close> returns \<open>N\<close> and
  \<^verbatim>\<open>get_cumulative_number_of_events()\<close> returns the sequence 1, 2, ..., \<open>N\<close> of
  length \<open>N\<close> (as floats); when no record sequence is bound, or \<open>N = 0\<close>, the first
  returns 0 and the second an empty sequence.
\<close>

theorem count_and_cumulative_count:
  "(catalog_getter self w = Some c \<longrightarrow>
      BaseCatalog_get_number_of_events self w = len c \<and>
      BaseCatalog_get_cumulative_number_of_events self w
        = map (\<lambda>k. Finite (of_nat k)) [1..<Suc (len c)]) \<and>
   (catalog_getter self w = None \<or> (\<exists>c. catalog_getter self w = Some c \<and> len c = 0) \<longrightarrow>
      BaseCatalog_get_number_of_events self w = 0 \<and>
      BaseCatalog_get_cumulative_number_of_events self w = [])"
proof -
  have none: "np_cumsum (np_ones 0) = []"
    by (simp add: np_cumsum_def np_ones_def)
  show ?thesis
    by (auto simp: BaseCatalog_get_number_of_events_def
          BaseCatalog_get_cumulative_number_of_events_def np_cumsum_ones none
          simp del: upt_Suc)
qed

text \<open>A catalog of three rows, and an object whose catalog is \<^verbatim>\<open>None\<close>.\<close>

theorem count_and_cumulative_count_witness:
  "BaseCatalog_get_number_of_events 0 magnitude_world = 3 \<and>
   BaseCatalog_get_cumulative_number_of_events 0 magnitude_world
     = [Finite 1, Finite 2, Finite 3] \<and>
   BaseCatalog_get_number_of_events 0 unbound_world = 0 \<and>
   BaseCatalog_get_cumulative_number_of_events 0 unbound_world = []"
proof -
  have bound: "catalog_getter 0 magnitude_world
      = Some (Ndarray [(''magnitude'', NpFloat BE 8)] [Finite 3, Finite 4, Finite (11 / 2)])"
    by (simp add: catalog_getter_def magnitude_world_def blank_def)
  have unbound: "catalog_getter 0 unbound_world = None"
    by (simp add: catalog_getter_def unbound_world_def blank_def)
  have upt: "[1..<Suc 3] = [1, 2, 3]"
    by (simp add: upt_conv_Cons)
  from count_and_cumulative_count [of 0 magnitude_world
      "Ndarray [(''magnitude'', NpFloat BE 8)] [Finite 3, Finite 4, Finite (11 / 2)]"]
    count_and_cumulative_count [of 0 unbound_world] bound unbound
  show ?thesis by (simp add: upt)
qed

subsection \<open>Filtering\<close>





lemma operators_dom:
  "operators tok \<noteq> None \<longleftrightarrow> tok \<in> {''>'', ''<'', ''>='', ''<='', ''==''}"
  by (auto simp: operators_def)

lemma map_of_dtype_names: "map_of dt nm = None \<longleftrightarrow> nm \<notin> set (dtype_names dt)"
  by (simp add: map_of_eq_None_iff dtype_names_def)







text \<open>
  Claim C10: whenever \<^verbatim>\<open>filter(statement)\<close> raises, for whatever reason (a statement
  that does not split into three tokens, an unknown operator token, a field that the
  schema does not have, a value that \<^verbatim>\<open>float\<close> does not parse, an order comparison
  of a column of byte strings with the float, a catalog that is not an array), the
  record sequence of the catalog is left as it was, and so is everything else of the
  store: the assignment to \<^verbatim>\<open>self.catalog\<close> comes after everything that can raise.
\<close>

theorem filter_error_leaves_catalog:
  assumes "fst (BaseCatalog_filter ext self statement w) = Inl e"
  shows "snd (BaseCatalog_filter ext self statement w) = w"
  using assms
  by (auto simp: BaseCatalog_filter_def catalog_setter_def Let_def
      split: list.splits option.splits sum.splits catalog_val.splits prod.splits)

text \<open>
  The ways to fail: on the catalog with the magnitudes 3.0, 4.0 and 5.5, four tokens,
  the operator \<^verbatim>\<open>!=\<close>, the field \<^verbatim>\<open>depth\<close>, the value \<^verbatim>\<open>abc\<close>; on the catalog of the
  remote service, the byte strings of \<^verbatim>\<open>id\<close> compared with \<^verbatim>\<open>>=\<close>; on an object whose
  catalog is \<^verbatim>\<open>None\<close>, the subscript.
\<close>

theorem filter_error_leaves_catalog_witness:
  "fst (BaseCatalog_filter magnitude_ext 0 ''magnitude >= 4.0 x'' magnitude_world) = Inl ValueError \<and>
   snd (BaseCatalog_filter magnitude_ext 0 ''magnitude >= 4.0 x'' magnitude_world) = magnitude_world \<and>
   fst (BaseCatalog_filter magnitude_ext 0 ''magnitude != 4.0'' magnitude_world) = Inl KeyError \<and>
   snd (BaseCatalog_filter magnitude_ext 0 ''magnitude != 4.0'' magnitude_world) = magnitude_world \<and>
   fst (BaseCatalog_filter magnitude_ext 0 ''depth >= 4.0'' magnitude_world) = Inl ValueError \<and>
   snd (BaseCatalog_filter magnitude_ext 0 ''depth >= 4.0'' magnitude_world) = magnitude_world \<and>
   fst (BaseCatalog_filter magnitude_ext 0 ''magnitude >= abc'' magnitude_world) = Inl ValueError \<and>
   snd (BaseCatalog_filter magnitude_ext 0 ''magnitude >= abc'' magnitude_world) = magnitude_world \<and>
   fst (BaseCatalog_filter comcat_ext 0 ''id >= 4.0'' comcat_world) = Inl TypeError \<and>
   snd (BaseCatalog_filter comcat_ext 0 ''id >= 4.0'' comcat_world) = comcat_world \<and>
   fst (BaseCatalog_filter magnitude_ext 0 ''magnitude >= 4.0'' unbound_world) = Inl TypeError \<and>
   snd (BaseCatalog_filter magnitude_ext 0 ''magnitude >= 4.0'' unbound_world) = unbound_world"
proof -
  have e1: "fst (BaseCatalog_filter magnitude_ext 0 ''magnitude >= 4.0 x'' magnitude_world)
      = Inl ValueError"
    by (simp add: BaseCatalog_filter_def)
  have e2: "fst (BaseCatalog_filter magnitude_ext 0 ''magnitude != 4.0'' magnitude_world)
      = Inl KeyError"
    by (simp add: BaseCatalog_filter_def operators_def)
  have e3: "fst (BaseCatalog_filter magnitude_ext 0 ''depth >= 4.0'' magnitude_world)
      = Inl ValueError"
    by (simp add: BaseCatalog_filter_def operators_def getitem_field_def catalog_getter_def
        magnitude_world_def blank_def)
  have e4: "fst (BaseCatalog_filter magnitude_ext 0 ''magnitude >= abc'' magnitude_world)
      = Inl ValueError"
    by (simp add: BaseCatalog_filter_def operators_def getitem_field_def catalog_getter_def
        magnitude_world_def magnitude_ext_def example_ext_def blank_def)
  have e5: "fst (BaseCatalog_filter comcat_ext 0 ''id >= 4.0'' comcat_world) = Inl TypeError"
    by (simp add: BaseCatalog_filter_def operators_def getitem_field_def np_compare_def
        catalog_getter_def comcat_world_def comcat_ext_def example_ext_def blank_def
        comcat_dtype_def)
  have e6: "fst (BaseCatalog_filter magnitude_ext 0 ''magnitude >= 4.0'' unbound_world)
      = Inl TypeError"
    by (simp add: BaseCatalog_filter_def operators_def getitem_field_def catalog_getter_def
        unbound_world_def blank_def)
  from e1 e2 e3 e4 e5 e6
    filter_error_leaves_catalog [OF e1] filter_error_leaves_catalog [OF e2]
    filter_error_leaves_catalog [OF e3] filter_error_leaves_catalog [OF e4]
    filter_error_leaves_catalog [OF e5] filter_error_leaves_catalog [OF e6]
  show ?thesis by simp
qed

text \<open>
  An operator token outside the dictionary is a failed lookup in \<^verbatim>\<open>operators\<close>: the
  exception is \<^verbatim>\<open>KeyError\<close>, which is not the \<^verbatim>\<open>ValueError\<close> that this module raises
  for an argument it rejects.
\<close>

theorem filter_unknown_operator_raises_KeyError:
  "fst (BaseCatalog_filter magnitude_ext 0 ''magnitude != 4.0'' magnitude_world) = Inl KeyError \<and>
   fst (BaseCatalog_filter magnitude_ext 0 ''magnitude != 4.0'' magnitude_world) \<noteq> Inl ValueError"
  by (simp add: BaseCatalog_filter_def operators_def)

text \<open>
  Claim C7, as amended: for every catalog, \<^verbatim>\<open>filter\<close> on a statement of three tokens
  whose operator token is outside \<^verbatim>\<open>>\<close>, \<^verbatim>\<open><\<close>, \<^verbatim>\<open>>=\<close>, \<^verbatim>\<open><=\<close>, \<^verbatim>\<open>==\<close> fails
  with \<^verbatim>\<open>KeyError\<close>, and with a supported operator and a field name that the schema
  of the bound record array does not have it fails with \<^verbatim>\<open>ValueError\<close>; in both
  cases it is not a no-op, no catalog is returned, and the store is unchanged.
\<close>

theorem filter_rejects_operator_and_field:
  assumes "split_sp statement = [fld, tok, lit]"
  shows "(tok \<notin> {''>'', ''<'', ''>='', ''<='', ''==''} \<longrightarrow>
            BaseCatalog_filter ext self statement w = (Inl KeyError, w)) \<and>
         (tok \<in> {''>'', ''<'', ''>='', ''<='', ''==''} \<and>
          catalog_getter self w = Some (Ndarray dt rs) \<and> fld \<notin> set (dtype_names dt) \<longrightarrow>
            BaseCatalog_filter ext self statement w = (Inl ValueError, w))"
proof (intro conjI impI)
  assume "tok \<notin> {''>'', ''<'', ''>='', ''<='', ''==''}"
  then have "operators tok = None" using operators_dom [of tok] by blast
  then show "BaseCatalog_filter ext self statement w = (Inl KeyError, w)"
    by (simp add: BaseCatalog_filter_def assms)
next
  assume a: "tok \<in> {''>'', ''<'', ''>='', ''<='', ''==''} \<and>
      catalog_getter self w = Some (Ndarray dt rs) \<and> fld \<notin> set (dtype_names dt)"
  then obtain opr where "operators tok = Some opr" using operators_dom [of tok] by auto
  moreover from a have "map_of dt fld = None" by (simp add: map_of_dtype_names)
  ultimately show "BaseCatalog_filter ext self statement w = (Inl ValueError, w)"
    using a by (simp add: BaseCatalog_filter_def assms getitem_field_def)
qed

text \<open>The operator \<^verbatim>\<open>=>\<close> and the field \<^verbatim>\<open>depth\<close> on the magnitude catalog.\<close>

theorem filter_rejects_operator_and_field_witness:
  "BaseCatalog_filter magnitude_ext 0 ''magnitude => 4.0'' magnitude_world
     = (Inl KeyError, magnitude_world) \<and>
   BaseCatalog_filter magnitude_ext 0 ''depth >= 4.0'' magnitude_world
     = (Inl ValueError, magnitude_world)"
proof -
  have s1: "split_sp ''magnitude => 4.0'' = [''magnitude'', ''=>'', ''4.0'']" by simp
  have s2: "split_sp ''depth >= 4.0'' = [''depth'', ''>='', ''4.0'']" by simp
  have bound: "catalog_getter 0 magnitude_world
      = Some (Ndarray [(''magnitude'', NpFloat BE 8)] [Finite 3, Finite 4, Finite (11 / 2)])"
    by (simp add: catalog_getter_def magnitude_world_def blank_def)
  from filter_rejects_operator_and_field [OF s1, of magnitude_ext 0 magnitude_world]
    filter_rejects_operator_and_field [OF s2, of magnitude_ext 0 magnitude_world
      "[(''magnitude'', NpFloat BE 8)]" "[Finite 3, Finite 4, Finite (11 / 2)]"] bound
  show ?thesis by (simp add: dtype_names_def)
qed

subsection \<open>Assigning the catalog\<close>

text \<open>
  Claim C9 at \<^verbatim>\<open>UCERF3Catalog(catalog=[event])\<close>: the setter stores the list, looks
  up \<^verbatim>\<open>_get_catalog_as_ndarray\<close>, which \<^verbatim>\<open>UCERF3Catalog\<close> does not have, and raises
  \<^verbatim>\<open>AttributeError\<close>; no conversion runs and the object is left holding the list.
\<close>

theorem ucerf3_list_assignment_raises:
  "fst (new_BaseCatalog magnitude_ext UCERF3Catalog
          (base_defaults\<lparr>a_catalog := Some (PyList [example_event])\<rparr>) unbound_world)
     = Inl AttributeError \<and>
   catalog_getter 1 (snd (new_BaseCatalog magnitude_ext UCERF3Catalog
          (base_defaults\<lparr>a_catalog := Some (PyList [example_event])\<rparr>) unbound_world))
     = Some (PyList [example_event])"
  by (simp add: new_BaseCatalog_def new_object_def BaseCatalog_init_def catalog_setter_def
      get_catalog_as_ndarray_def upd_def unbound_world_def base_defaults_def blank_def
      catalog_getter_def Let_def)

text \<open>
  On a \<^verbatim>\<open>ComcatCatalog\<close> the conversion runs, and an assignment that completes, on
  an object of any class, leaves \<^verbatim>\<open>None\<close> or an array.
\<close>

lemma comcat_assignment_converts:
  assumes "variant (heap w self) = ComcatCatalog" and "comcat_rows ext events = Inr rs"
  shows "catalog_setter ext self (Some (PyList events)) w
     = (Inr (), upd self (\<lambda>ob. ob\<lparr>private_catalog := Some (Ndarray comcat_dtype rs)\<rparr>)
                 (upd self (\<lambda>ob. ob\<lparr>private_catalog := Some (PyList events)\<rparr>) w))"
  using assms
  by (simp add: catalog_setter_def get_catalog_as_ndarray_def
      ComcatCatalog_get_catalog_as_ndarray_def upd_def Let_def)

lemma completed_assignment_canonical:
  assumes "catalog_setter ext self val w = (Inr u, w')"
  shows "catalog_getter self w' = None \<or> (\<exists>dt rs. catalog_getter self w' = Some (Ndarray dt rs))"
  using assms
  by (auto simp: catalog_setter_def upd_def catalog_getter_def Let_def
      get_catalog_as_ndarray_def ComcatCatalog_get_catalog_as_ndarray_def
      split: option.splits catalog_val.splits sum.splits variant.splits list.splits)

subsection \<open>Deferred loading\<close>

lemma trace_upd: "trace (upd self f w) = trace w"
  by (simp add: upd_def)

lemma heap_upd: "heap (upd self f w) r = (if r = self then f (heap w self) else heap w r)"
  by (simp add: upd_def)

lemma setter_trace: "trace (snd (catalog_setter ext self val w)) = trace w"
  by (simp add: catalog_setter_def Let_def trace_upd
      split: option.splits catalog_val.splits sum.splits)

lemma setter_None: "catalog_setter ext self None w
    = (Inr (), upd self (\<lambda>ob. ob\<lparr>private_catalog := None\<rparr>) w)"
  by (simp add: catalog_setter_def)

lemma comcat_load_trace:
  assumes "region (heap w self) = Some rg" and "start_time (heap w self) = Some st"
    and "end_time (heap w self) = Some en"
  shows "trace (snd (ComcatCatalog_load_catalog ext self kw w))
     = trace w @ [Search \<lparr>q_region = rg, q_starttime = st, q_endtime = en, q_extra = kw\<rparr>]"
proof -
  let ?q = "\<lparr>q_region = rg, q_starttime = st, q_endtime = en, q_extra = kw\<rparr>"
  let ?w1 = "w\<lparr>trace := trace w @ [Search ?q]\<rparr>"
  show ?thesis
  proof (cases "search ext ?q")
    case (Inl e)
    with assms show ?thesis by (simp add: ComcatCatalog_load_catalog_def Let_def)
  next
    case (Inr events)
    obtain r w2 where s: "catalog_setter ext self (Some (PyList events)) ?w1 = (r, w2)"
      by (cases "catalog_setter ext self (Some (PyList events)) ?w1")
    have "trace w2 = trace ?w1"
      using setter_trace [of ext self "Some (PyList events)" ?w1] s by simp
    with assms Inr s show ?thesis
      by (cases r) (simp_all add: ComcatCatalog_load_catalog_def Let_def)
  qed
qed

lemma load_catalog_trace:
  "trace (snd (load_catalog ext self w)) = trace w @ [Call_load_catalog self] \<or>
   (\<exists>q. trace (snd (load_catalog ext self w)) = trace w @ [Call_load_catalog self, Search q])"
proof (cases "variant (heap w self) = ComcatCatalog")
  case False
  then show ?thesis
    by (cases "variant (heap w self)") (simp_all add: load_catalog_def Let_def)
next
  case True
  let ?w0 = "w\<lparr>trace := trace w @ [Call_load_catalog self]\<rparr>"
  have l: "load_catalog ext self w = ComcatCatalog_load_catalog ext self [] ?w0"
    using True by (simp add: load_catalog_def Let_def)
  show ?thesis
  proof (cases "\<exists>rg st en. region (heap w self) = Some rg \<and> start_time (heap w self) = Some st
                   \<and> end_time (heap w self) = Some en")
    case True
    then obtain rg st en where a: "region (heap ?w0 self) = Some rg"
        "start_time (heap ?w0 self) = Some st" "end_time (heap ?w0 self) = Some en"
      by auto
    show ?thesis unfolding l comcat_load_trace [OF a] by simp
  next
    case False
    then have "ComcatCatalog_load_catalog ext self [] ?w0 = (Inl AttributeError, ?w0)"
      by (auto simp: ComcatCatalog_load_catalog_def split: option.splits)
    then show ?thesis unfolding l by simp
  qed
qed

lemma count_load_calls:
  "count_list (trace (snd (load_catalog ext self w))) (Call_load_catalog self)
     = Suc (count_list (trace w) (Call_load_catalog self))"
  using load_catalog_trace [of ext self w] by auto

text \<open>
  A \<^verbatim>\<open>ComcatCatalog\<close> constructed in deferred-load mode with no record sequence: the
  first access to its catalog, directly or through \<^verbatim>\<open>get_number_of_events\<close>, finds
  \<^verbatim>\<open>None\<close>, and no loading procedure and no remote query has run.
\<close>

theorem lazy_comcat_access_does_not_load:
  "fst (new_ComcatCatalog magnitude_ext example_comcat_args unbound_world) = Inr 1 \<and>
   catalog_getter 1 (snd (new_ComcatCatalog magnitude_ext example_comcat_args unbound_world))
     = None \<and>
   BaseCatalog_get_number_of_events 1
     (snd (new_ComcatCatalog magnitude_ext example_comcat_args unbound_world)) = 0 \<and>
   trace (snd (new_ComcatCatalog magnitude_ext example_comcat_args unbound_world)) = []"
  by (simp add: new_ComcatCatalog_def new_object_def ComcatCatalog_init_def
      BaseCatalog_init_def setter_None resolve_start_def resolve_end_def
      example_comcat_args_def base_defaults_def unbound_world_def
      catalog_getter_def BaseCatalog_get_number_of_events_def upd_def Let_def)

text \<open>
  Claim C5, as amended: for every catalog that \<^verbatim>\<open>BaseCatalog.__init__\<close> constructs
  with no record sequence supplied, in deferred-load mode (\<^verbatim>\<open>lazy_load\<close> true) the
  construction succeeds without running the loading procedure, and the record
  sequence then reads \<^verbatim>\<open>None\<close> (reading it runs nothing: the loader runs only when
  the caller calls it); with \<^verbatim>\<open>lazy_load\<close> false the constructor calls the
  \<^verbatim>\<open>load_catalog\<close> of the variant exactly once.
\<close>

theorem deferred_load_runs_no_loader:
  assumes "a_catalog args = None"
  shows "(a_lazy_load args \<longrightarrow>
            fst (BaseCatalog_init ext self args w) = Inr () \<and>
            trace (snd (BaseCatalog_init ext self args w)) = trace w \<and>
            catalog_getter self (snd (BaseCatalog_init ext self args w)) = None) \<and>
         (\<not> a_lazy_load args \<longrightarrow>
            count_list (trace (snd (BaseCatalog_init ext self args w))) (Call_load_catalog self)
              = Suc (count_list (trace w) (Call_load_catalog self)))"
proof (intro conjI impI)
  assume lazy: "a_lazy_load args"
  with assms show "fst (BaseCatalog_init ext self args w) = Inr ()"
    by (simp add: BaseCatalog_init_def setter_None Let_def)
  from lazy assms show "trace (snd (BaseCatalog_init ext self args w)) = trace w"
    by (simp add: BaseCatalog_init_def setter_None Let_def trace_upd)
  from lazy assms show "catalog_getter self (snd (BaseCatalog_init ext self args w)) = None"
    by (simp add: BaseCatalog_init_def setter_None Let_def catalog_getter_def heap_upd)
next
  assume eager: "\<not> a_lazy_load args"
  let ?w2 = "upd self (\<lambda>ob. ob\<lparr>private_catalog := None\<rparr>)
      (upd self (\<lambda>ob. ob\<lparr>filename := a_filename args, catalog_id := a_catalog_id args,
                           format := a_format args, name := a_name args\<rparr>) w)"
  have t: "trace ?w2 = trace w" by (simp add: trace_upd)
  have "snd (BaseCatalog_init ext self args w) = snd (load_catalog ext self ?w2)"
    using eager assms
    by (simp add: BaseCatalog_init_def setter_None Let_def catalog_getter_def heap_upd
        split: prod.splits sum.splits)
  then show "count_list (trace (snd (BaseCatalog_init ext self args w))) (Call_load_catalog self)
      = Suc (count_list (trace w) (Call_load_catalog self))"
    using count_load_calls [of ext self ?w2] t by simp
qed

text \<open>
  The constructor of the base class on the defaults, and with \<^verbatim>\<open>lazy_load=False\<close>.
\<close>

theorem deferred_load_runs_no_loader_witness:
  "fst (BaseCatalog_init magnitude_ext 0 base_defaults unbound_world) = Inr () \<and>
   trace (snd (BaseCatalog_init magnitude_ext 0 base_defaults unbound_world)) = [] \<and>
   catalog_getter 0 (snd (BaseCatalog_init magnitude_ext 0 base_defaults unbound_world)) = None \<and>
   count_list (trace (snd (BaseCatalog_init magnitude_ext 0
       (base_defaults\<lparr>a_lazy_load := False\<rparr>) unbound_world))) (Call_load_catalog 0) = 1"
proof -
  have a: "a_catalog (base_defaults :: fval base_args) = None"
    and b: "a_catalog ((base_defaults :: fval base_args)\<lparr>a_lazy_load := False\<rparr>) = None"
    by (simp_all add: base_defaults_def)
  from deferred_load_runs_no_loader [OF a, of magnitude_ext 0 unbound_world]
    deferred_load_runs_no_loader [OF b, of magnitude_ext 0 unbound_world]
  show ?thesis by (simp add: base_defaults_def unbound_world_def)
qed

subsection \<open>The time window of a remote-query catalog\<close>

lemma setter_window:
  "start_time (heap (snd (catalog_setter ext self val w)) r) = start_time (heap w r) \<and>
   end_time (heap (snd (catalog_setter ext self val w)) r) = end_time (heap w r)"
  by (simp add: catalog_setter_def Let_def heap_upd
      split: option.splits catalog_val.splits sum.splits)

lemma comcat_load_window:
  "start_time (heap (snd (ComcatCatalog_load_catalog ext self kw w)) r) = start_time (heap w r) \<and>
   end_time (heap (snd (ComcatCatalog_load_catalog ext self kw w)) r) = end_time (heap w r)"
proof (cases "\<exists>rg st en. region (heap w self) = Some rg \<and> start_time (heap w self) = Some st
                   \<and> end_time (heap w self) = Some en")
  case False
  then have "ComcatCatalog_load_catalog ext self kw w = (Inl AttributeError, w)"
    by (auto simp: ComcatCatalog_load_catalog_def split: option.splits)
  then show ?thesis by simp
next
  case True
  then obtain rg st en where a: "region (heap w self) = Some rg"
      "start_time (heap w self) = Some st" "end_time (heap w self) = Some en"
    by auto
  let ?q = "\<lparr>q_region = rg, q_starttime = st, q_endtime = en, q_extra = kw\<rparr>"
  let ?w1 = "w\<lparr>trace := trace w @ [Search ?q]\<rparr>"
  show ?thesis
  proof (cases "search ext ?q")
    case (Inl e)
    with a show ?thesis by (simp add: ComcatCatalog_load_catalog_def Let_def)
  next
    case (Inr events)
    obtain x w2 where s: "catalog_setter ext self (Some (PyList events)) ?w1 = (x, w2)"
      by (cases "catalog_setter ext self (Some (PyList events)) ?w1")
    have "start_time (heap w2 r) = start_time (heap ?w1 r) \<and>
        end_time (heap w2 r) = end_time (heap ?w1 r)"
      using setter_window [of ext self "Some (PyList events)" ?w1 r] s by simp
    with a Inr s show ?thesis
      by (cases x) (simp_all add: ComcatCatalog_load_catalog_def Let_def)
  qed
qed

lemma load_window:
  "start_time (heap (snd (load_catalog ext self w)) r) = start_time (heap w r) \<and>
   end_time (heap (snd (load_catalog ext self w)) r) = end_time (heap w r)"
proof (cases "variant (heap w self) = ComcatCatalog")
  case False
  then show ?thesis
    by (cases "variant (heap w self)") (simp_all add: load_catalog_def Let_def)
next
  case True
  let ?w0 = "w\<lparr>trace := trace w @ [Call_load_catalog self]\<rparr>"
  have "load_catalog ext self w = ComcatCatalog_load_catalog ext self [] ?w0"
    using True by (simp add: load_catalog_def Let_def)
  then show ?thesis using comcat_load_window [of ext self "[]" ?w0 r] by simp
qed

lemma base_init_window:
  "start_time (heap (snd (BaseCatalog_init ext self args w)) r) = start_time (heap w r) \<and>
   end_time (heap (snd (BaseCatalog_init ext self args w)) r) = end_time (heap w r)"
proof -
  let ?w1 = "upd self (\<lambda>ob. ob\<lparr>filename := a_filename args, catalog_id := a_catalog_id args,
                                  format := a_format args, name := a_name args\<rparr>) w"
  obtain x w2 where s: "catalog_setter ext self (a_catalog args) ?w1 = (x, w2)"
    by (cases "catalog_setter ext self (a_catalog args) ?w1")
  have w2: "start_time (heap w2 r) = start_time (heap w r) \<and>
      end_time (heap w2 r) = end_time (heap w r)"
    using setter_window [of ext self "a_catalog args" ?w1 r] s by (simp add: heap_upd)
  obtain y w3 where l: "load_catalog ext self w2 = (y, w3)"
    by (cases "load_catalog ext self w2")
  have w3: "start_time (heap w3 r) = start_time (heap w r) \<and>
      end_time (heap w3 r) = end_time (heap w r)"
    using load_window [of ext self w2 r] l w2 by simp
  show ?thesis
    using s l w2 w3
    by (cases x; cases y) (simp_all add: BaseCatalog_init_def Let_def)
qed

text \<open>
  Claim C6: the construction of a \<^verbatim>\<open>ComcatCatalog\<close> fails with \<^verbatim>\<open>ValueError\<close>, and
  nothing has been loaded or queried by then, whenever neither \<^verbatim>\<open>start_time\<close> nor
  \<^verbatim>\<open>start_epoch\<close> is supplied, or neither \<^verbatim>\<open>end_time\<close> nor
  \<^verbatim>\<open>duration_in_years\<close> is supplied, or the resolved start is later than the
  resolved end; an explicit \<^verbatim>\<open>start_time\<close> is the resolved start whatever
  \<^verbatim>\<open>start_epoch\<close> is, and an explicit \<^verbatim>\<open>end_time\<close> is the resolved end whatever
  \<^verbatim>\<open>duration_in_years\<close> is, and these are the instants the constructed object
  holds.
\<close>

theorem comcat_time_window_validation:
  "(c_start_time args = None \<and> c_start_epoch args = None \<longrightarrow>
      fst (ComcatCatalog_init ext self args w) = Inl ValueError \<and>
      trace (snd (ComcatCatalog_init ext self args w)) = trace w) \<and>
   (c_end_time args = None \<and> c_duration_in_years args = None \<longrightarrow>
      fst (ComcatCatalog_init ext self args w) = Inl ValueError \<and>
      trace (snd (ComcatCatalog_init ext self args w)) = trace w) \<and>
   (\<forall>st en. resolve_start ext (c_start_time args) (c_start_epoch args) = Inr st \<and>
        resolve_end ext st (c_end_time args) (c_duration_in_years args) = Inr en \<and> en < st \<longrightarrow>
      fst (ComcatCatalog_init ext self args w) = Inl ValueError \<and>
      trace (snd (ComcatCatalog_init ext self args w)) = trace w) \<and>
   (\<forall>t. c_start_time args = Some t \<longrightarrow>
      resolve_start ext (c_start_time args) (c_start_epoch args) = Inr t \<and>
      (fst (ComcatCatalog_init ext self args w) = Inr () \<longrightarrow>
         start_time (heap (snd (ComcatCatalog_init ext self args w)) self) = Some t)) \<and>
   (\<forall>t st. c_end_time args = Some t \<longrightarrow>
      resolve_end ext st (c_end_time args) (c_duration_in_years args) = Inr t \<and>
      (fst (ComcatCatalog_init ext self args w) = Inr () \<longrightarrow>
         end_time (heap (snd (ComcatCatalog_init ext self args w)) self) = Some t))"
proof (intro conjI allI impI)
  assume "c_start_time args = None \<and> c_start_epoch args = None"
  then show "fst (ComcatCatalog_init ext self args w) = Inl ValueError"
    and "trace (snd (ComcatCatalog_init ext self args w)) = trace w"
    by (simp_all add: ComcatCatalog_init_def Let_def trace_upd)
next
  assume "c_end_time args = None \<and> c_duration_in_years args = None"
  then show "fst (ComcatCatalog_init ext self args w) = Inl ValueError"
    and "trace (snd (ComcatCatalog_init ext self args w)) = trace w"
    by (simp_all add: ComcatCatalog_init_def Let_def trace_upd)
next
  fix st en
  assume a: "resolve_start ext (c_start_time args) (c_start_epoch args) = Inr st \<and>
      resolve_end ext st (c_end_time args) (c_duration_in_years args) = Inr en \<and> en < st"
  then have s: "\<not> (c_start_time args = None \<and> c_start_epoch args = None)"
    by (auto simp: resolve_start_def split: option.splits)
  from a have e: "\<not> (c_end_time args = None \<and> c_duration_in_years args = None)"
    by (auto simp: resolve_end_def split: option.splits)
  from a s e show "fst (ComcatCatalog_init ext self args w) = Inl ValueError"
    and "trace (snd (ComcatCatalog_init ext self args w)) = trace w"
    by (simp_all add: ComcatCatalog_init_def Let_def trace_upd)
next
  fix t
  assume t: "c_start_time args = Some t"
  then show "resolve_start ext (c_start_time args) (c_start_epoch args) = Inr t"
    by (simp add: resolve_start_def)
  assume ok: "fst (ComcatCatalog_init ext self args w) = Inr ()"
  show "start_time (heap (snd (ComcatCatalog_init ext self args w)) self) = Some t"
    using t ok base_init_window [of ext self _ _ self]
    by (auto simp: ComcatCatalog_init_def Let_def resolve_start_def heap_upd
        split: if_splits sum.splits)
next
  fix t st
  assume t: "c_end_time args = Some t"
  then show "resolve_end ext st (c_end_time args) (c_duration_in_years args) = Inr t"
    by (simp add: resolve_end_def)
  assume ok: "fst (ComcatCatalog_init ext self args w) = Inr ()"
  show "end_time (heap (snd (ComcatCatalog_init ext self args w)) self) = Some t"
    using t ok base_init_window [of ext self _ _ self]
    by (auto simp: ComcatCatalog_init_def Let_def resolve_end_def heap_upd
        split: if_splits sum.splits)
qed

text \<open>
  Only an end, no end at all, a start after the end, and both forms of start and of
  end at once.
\<close>

theorem comcat_time_window_validation_witness:
  "fst (ComcatCatalog_init magnitude_ext 0 (example_comcat_args\<lparr>c_start_time := None\<rparr>)
          unbound_world) = Inl ValueError \<and>
   trace (snd (ComcatCatalog_init magnitude_ext 0 (example_comcat_args\<lparr>c_start_time := None\<rparr>)
          unbound_world)) = [] \<and>
   fst (ComcatCatalog_init magnitude_ext 0 (example_comcat_args\<lparr>c_end_time := None\<rparr>)
          unbound_world) = Inl ValueError \<and>
   fst (ComcatCatalog_init magnitude_ext 0 (example_comcat_args\<lparr>c_start_time := Some 300\<rparr>)
          unbound_world) = Inl ValueError \<and>
   trace (snd (ComcatCatalog_init magnitude_ext 0 (example_comcat_args\<lparr>c_start_time := Some 300\<rparr>)
          unbound_world)) = [] \<and>
   start_time (heap (snd (ComcatCatalog_init magnitude_ext 0
          (example_comcat_args\<lparr>c_start_epoch := Some (Finite 5),
                                c_duration_in_years := Some (Finite 1)\<rparr>) unbound_world)) 0)
     = Some 100 \<and>
   end_time (heap (snd (ComcatCatalog_init magnitude_ext 0
          (example_comcat_args\<lparr>c_start_epoch := Some (Finite 5),
                                c_duration_in_years := Some (Finite 1)\<rparr>) unbound_world)) 0)
     = Some 200"
proof -
  let ?both = "example_comcat_args\<lparr>c_start_epoch := Some (Finite 5),
                                    c_duration_in_years := Some (Finite 1)\<rparr>"
  have ok: "fst (ComcatCatalog_init magnitude_ext 0 ?both unbound_world) = Inr ()"
    by (simp add: ComcatCatalog_init_def BaseCatalog_init_def setter_None resolve_start_def
        resolve_end_def example_comcat_args_def base_defaults_def Let_def)
  from comcat_time_window_validation
      [of "example_comcat_args\<lparr>c_start_time := None\<rparr>" magnitude_ext 0 unbound_world]
    comcat_time_window_validation
      [of "example_comcat_args\<lparr>c_end_time := None\<rparr>" magnitude_ext 0 unbound_world]
    comcat_time_window_validation
      [of "example_comcat_args\<lparr>c_start_time := Some 300\<rparr>" magnitude_ext 0 unbound_world]
    comcat_time_window_validation [of ?both magnitude_ext 0 unbound_world] ok
  show ?thesis
    by (simp add: example_comcat_args_def resolve_start_def resolve_end_def unbound_world_def)
qed

subsection \<open>The merged file\<close>

lemma be_nat_snoc: "be_nat (bs @ [b]) = be_nat bs * 256 + unat b"
  by (simp add: be_nat_def)

lemma length_be_bytes: "length (be_bytes k n) = k"
  by (induction k arbitrary: n) auto

lemma be_nat_be_bytes: "be_nat (be_bytes k n) = n mod 256 ^ k"
proof (induction k arbitrary: n)
  case 0
  then show ?case by (simp add: be_nat_def)
next
  case (Suc k)
  have "be_nat (be_bytes (Suc k) n) = (n div 256 mod 256 ^ k) * 256 + n mod 256"
    by (simp add: be_nat_snoc Suc.IH unat_of_nat)
  also have "\<dots> = n mod 256 ^ Suc k"
    by (simp add: mod_mult2_eq)
  finally show ?case .
qed

lemma be_sint_be_bytes_4:
  assumes "n < 2 ^ 31"
  shows "be_sint (be_bytes 4 n) = int n"
proof -
  have "n < 256 ^ 4" using assms by simp
  then have "be_nat (be_bytes 4 n) = n" by (simp add: be_nat_be_bytes)
  then show ?thesis using assms by (simp add: be_sint_def length_be_bytes)
qed

lemma catalog_size_field:
  assumes "n < 2 ^ 31"
  shows "int_field header_dtype ''catalog_size'' (be_bytes 2 v @ be_bytes 4 n) = Some (int n)"
  using be_sint_be_bytes_4 [OF assms]
  by (simp add: int_field_def header_dtype_def length_be_bytes)

lemma read_header:
  "fromfile (itemsize header_dtype) 1 (be_bytes 2 v @ be_bytes 4 n @ rest)
     = ([be_bytes 2 v @ be_bytes 4 n], rest)"
proof -
  have "fromfile 6 (int 1) (be_bytes 2 v @ be_bytes 4 n @ rest)
      = (chunks 6 1 (be_bytes 2 v @ be_bytes 4 n @ rest),
         drop (1 * 6) (be_bytes 2 v @ be_bytes 4 n @ rest))"
    by (rule fromfile_exact) (simp_all add: length_be_bytes)
  then show ?thesis by (simp add: itemsize_header_dtype length_be_bytes)
qed

lemma read_nothing: "0 < k \<Longrightarrow> fromfile k 1 [] = ([], [])"
  by (simp add: fromfile_def)

lemma read_count:
  "fromfile 4 1 (be_bytes 4 n @ rest) = ([be_bytes 4 n], rest)"
proof -
  have "fromfile 4 (int 1) (be_bytes 4 n @ rest)
      = (chunks 4 1 (be_bytes 4 n @ rest), drop (1 * 4) (be_bytes 4 n @ rest))"
    by (rule fromfile_exact) (simp_all add: length_be_bytes)
  then show ?thesis by (simp add: length_be_bytes)
qed

lemma new_ucerf3_catalog:
  "new_BaseCatalog ext UCERF3Catalog
      \<lparr>a_filename = Some fn, a_catalog = Some (Ndarray event_dtype recs),
       a_catalog_id = Some (IdInt (int i)), a_format = k_format kw, a_name = k_name kw,
       a_lazy_load = k_lazy_load kw\<rparr> w
     = (Inr (next_ref w), allocate (u3_object fn kw i recs) w)"
  by (simp add: new_BaseCatalog_def new_object_def BaseCatalog_init_def catalog_setter_def
      catalog_getter_def upd_def allocate_def u3_object_def Let_def)

lemma iter_whole_catalog:
  assumes "int i < n" and "length recs < 2 ^ 31"
    and "list_all (\<lambda>r. length r = itemsize event_dtype) recs"
  shows "load_catalogs_iter ext fn kw (merged_catalog (v, recs) @ rest) i n w
     = (Yield (next_ref w), Running fn kw rest (Suc i) n,
        allocate (u3_object fn kw i recs) w)"
proof -
  have body: "fromfile (itemsize event_dtype) (int (length recs)) (concat recs @ rest)
      = (recs, rest)"
    by (rule fromfile_items [OF _ assms(3)]) (simp add: itemsize_event_dtype)
  show ?thesis
    using assms(1)
    by (simp add: load_catalogs_iter_def merged_catalog_def read_header
        catalog_size_field [OF assms(2)] body new_ucerf3_catalog)
qed

lemma iter_truncated_catalog:
  assumes "int i < n" and "declared < 2 ^ 31" and "length body < declared * itemsize event_dtype"
  shows "load_catalogs_iter ext fn kw (be_bytes 2 v @ be_bytes 4 declared @ body) i n w
     = (Yield (next_ref w), Running fn kw [] (Suc i) n,
        allocate (u3_object fn kw i
          (chunks (itemsize event_dtype) (length body div itemsize event_dtype) body)) w)"
proof -
  have "fromfile (itemsize event_dtype) (int declared) body
      = (chunks (itemsize event_dtype) (length body div itemsize event_dtype) body, [])"
    by (rule fromfile_short) (simp_all add: itemsize_event_dtype assms(3) [unfolded itemsize_event_dtype])
  then show ?thesis
    using assms(1)
    by (simp add: load_catalogs_iter_def read_header catalog_size_field [OF assms(2)]
        new_ucerf3_catalog)
qed

lemma iter_end_of_file:
  "load_catalogs_iter ext fn kw [] i n w
     = (if int i < n then (Raise IndexError, Finished, w) else (StopIteration, Finished, w))"
  by (simp add: load_catalogs_iter_def itemsize_header_dtype read_nothing)

lemma next_ref_allocate: "next_ref (allocate ob w) = Suc (next_ref w)"
  by (simp add: allocate_def)

lemma next_ref_store: "next_ref (store_catalogs fn kw i cs w) = next_ref w + length cs"
  by (induction cs arbitrary: i w) (simp_all add: next_ref_allocate)

lemma heap_store_old:
  "r < next_ref w \<Longrightarrow> heap (store_catalogs fn kw i cs w) r = heap w r"
proof (induction cs arbitrary: i w)
  case Nil
  then show ?case by simp
next
  case (Cons c cs)
  from Cons.prems have "r < next_ref (allocate (u3_object fn kw i (snd c)) w)"
    by (simp add: next_ref_allocate)
  then have "heap (store_catalogs fn kw (Suc i) cs (allocate (u3_object fn kw i (snd c)) w)) r
      = heap (allocate (u3_object fn kw i (snd c)) w) r"
    by (rule Cons.IH)
  with Cons.prems show ?case by (simp add: allocate_def)
qed

lemma heap_store_new:
  "j < length cs \<Longrightarrow>
   heap (store_catalogs fn kw i cs w) (next_ref w + j) = u3_object fn kw (i + j) (snd (cs ! j))"
proof (induction cs arbitrary: i w j)
  case Nil
  then show ?case by simp
next
  case (Cons c cs)
  let ?w1 = "allocate (u3_object fn kw i (snd c)) w"
  show ?case
  proof (cases j)
    case 0
    have "heap (store_catalogs fn kw (Suc i) cs ?w1) (next_ref w) = heap ?w1 (next_ref w)"
      by (rule heap_store_old) (simp add: next_ref_allocate)
    then show ?thesis using 0 by (simp add: allocate_def)
  next
    case (Suc m)
    with Cons.prems have "m < length cs" by simp
    then have "heap (store_catalogs fn kw (Suc i) cs ?w1) (next_ref ?w1 + m)
        = u3_object fn kw (Suc i + m) (snd (cs ! m))"
      by (rule Cons.IH)
    then show ?thesis using Suc by (simp add: next_ref_allocate)
  qed
qed

lemma run_prefix:
  assumes "k \<le> length cs" and "int (i + length cs) \<le> n"
    and "list_all (\<lambda>c. length (snd c) < 2 ^ 31 \<and>
                    list_all (\<lambda>r. length r = itemsize event_dtype) (snd c)) cs"
  shows "gen_run ext k (Running fn kw (concat (map merged_catalog cs)) i n) w
     = (map (\<lambda>j. Yield (next_ref w + j)) [0..<k],
        Running fn kw (concat (map merged_catalog (drop k cs))) (i + k) n,
        store_catalogs fn kw i (take k cs) w)"
  using assms
proof (induction k arbitrary: cs i w)
  case 0
  then show ?case by simp
next
  case (Suc k)
  from Suc.prems(1) obtain c cs' where cs: "cs = c # cs'" by (cases cs) auto
  obtain v recs where c: "c = (v, recs)" by (cases c)
  let ?w1 = "allocate (u3_object fn kw i recs) w"
  have lt: "int i < n" using Suc.prems(2) cs by simp
  have ok: "length recs < 2 ^ 31" "list_all (\<lambda>r. length r = itemsize event_dtype) recs"
    using Suc.prems(3) cs c by simp_all
  have step: "load_catalogs_next ext
        (Running fn kw (merged_catalog (v, recs) @ concat (map merged_catalog cs')) i n) w
      = (Yield (next_ref w), Running fn kw (concat (map merged_catalog cs')) (Suc i) n, ?w1)"
    using iter_whole_catalog [OF lt ok, of ext fn kw v "concat (map merged_catalog cs')" w]
    by (simp add: load_catalogs_next_def)
  have rest: "gen_run ext k (Running fn kw (concat (map merged_catalog cs')) (Suc i) n) ?w1
      = (map (\<lambda>j. Yield (next_ref ?w1 + j)) [0..<k],
         Running fn kw (concat (map merged_catalog (drop k cs'))) (Suc i + k) n,
         store_catalogs fn kw (Suc i) (take k cs') ?w1)"
    using Suc.prems cs by (intro Suc.IH) simp_all
  have outs: "map (\<lambda>j. Yield (next_ref w + j)) [0..<Suc k]
      = Yield (next_ref w) # map (\<lambda>j. Yield (next_ref ?w1 + j)) [0..<k]"
    by (simp add: map_upt_Suc next_ref_allocate del: upt_Suc)
  show ?case
    unfolding outs
    by (simp add: step rest cs c del: upt_Suc)
qed

lemma gen_run_snoc:
  "gen_run ext (Suc k) g w
     = (case gen_run ext k g w of
          (outs, g1, w1) \<Rightarrow>
            (case load_catalogs_next ext g1 w1 of
               (out, g2, w2) \<Rightarrow> (outs @ [out], g2, w2)))"
proof (induction k arbitrary: g w)
  case 0
  then show ?case by (simp split: prod.splits)
next
  case (Suc k)
  obtain out g1 w1 where n: "load_catalogs_next ext g w = (out, g1, w1)"
    by (cases "load_catalogs_next ext g w")
  obtain outs g2 w2 where r: "gen_run ext k g1 w1 = (outs, g2, w2)"
    by (cases "gen_run ext k g1 w1")
  obtain o3 g3 w3 where l: "load_catalogs_next ext g2 w2 = (o3, g3, w3)"
    by (cases "load_catalogs_next ext g2 w2")
  have a: "gen_run ext (Suc k) g1 w1 = (outs @ [o3], g3, w3)"
    by (simp only: Suc.IH [of g1 w1] r l prod.case)
  have b: "gen_run ext (Suc k) g w = (out # outs, g2, w2)"
    by (simp only: gen_run.simps(2) n r prod.case)
  have lhs: "gen_run ext (Suc (Suc k)) g w = (out # outs @ [o3], g3, w3)"
    by (simp only: gen_run.simps(2) [of ext "Suc k"] n a prod.case)
  show ?case
    by (simp only: lhs b l prod.case append_Cons)
qed

lemma first_next:
  assumes "files w fn = Some (be_bytes 4 m @ rest)" and "m < 2 ^ 31"
  shows "load_catalogs_next ext (Created (Some fn) kw) w
     = load_catalogs_next ext (Running fn kw rest 0 (int m)) w"
  using assms
  by (simp add: load_catalogs_next_def read_count be_sint_be_bytes_4)

lemma run_from_created:
  assumes "files w fn = Some (be_bytes 4 m @ rest)" and "m < 2 ^ 31"
  shows "gen_run ext (Suc k) (Created (Some fn) kw) w
     = gen_run ext (Suc k) (Running fn kw rest 0 (int m)) w"
  by (simp add: first_next [OF assms])

lemma run_to_end:
  assumes "list_all (\<lambda>c. length (snd c) < 2 ^ 31 \<and>
                    list_all (\<lambda>r. length r = itemsize event_dtype) (snd c)) cs"
  shows "gen_run ext (Suc (length cs))
           (Running fn kw (concat (map merged_catalog cs)) i (int (i + length cs))) w
     = (map (\<lambda>j. Yield (next_ref w + j)) [0..<length cs] @ [StopIteration], Finished,
        store_catalogs fn kw i cs w)"
proof -
  have "gen_run ext (length cs)
          (Running fn kw (concat (map merged_catalog cs)) i (int (i + length cs))) w
      = (map (\<lambda>j. Yield (next_ref w + j)) [0..<length cs],
         Running fn kw (concat (map merged_catalog (drop (length cs) cs))) (i + length cs)
           (int (i + length cs)),
         store_catalogs fn kw i (take (length cs) cs) w)"
    by (rule run_prefix [OF _ _ assms]) simp_all
  then show ?thesis
    by (subst gen_run_snoc) (simp add: load_catalogs_next_def iter_end_of_file)
qed

lemma u3_object_fields:
  "catalog_id (u3_object fn kw i recs) = Some (IdInt (int i)) \<and>
   filename (u3_object fn kw i recs) = Some fn \<and>
   variant (u3_object fn kw i recs) = UCERF3Catalog \<and>
   private_catalog (u3_object fn kw i recs) = Some (Ndarray event_dtype recs)"
  by (simp add: u3_object_def blank_def)

text \<open>
  Claim C1: on every well-formed merged file, \<^verbatim>\<open>load_catalogs\<close> reads the number of
  catalogs from the first four bytes, then for each catalog its header of six bytes
  and exactly the number of records that the header declares. The first call of
  \<^verbatim>\<open>next\<close> for each catalog of the file yields one new \<^verbatim>\<open>UCERF3Catalog\<close>, nothing
  being built ahead of the calls (after \<open>k\<close> calls exactly \<open>k\<close> objects exist), and
  the call after the last raises \<^verbatim>\<open>StopIteration\<close>. The catalog at position \<open>j\<close>
  of the file has the identifier \<open>j\<close> and holds the records of that catalog, as
  many as its header declares.
\<close>

theorem load_catalogs_well_formed_file:
  assumes "files w fn = Some (merged_file cats)" and "well_formed cats"
  shows "gen_run ext (Suc (length cats)) (Created (Some fn) kw) w
           = (map (\<lambda>j. Yield (next_ref w + j)) [0..<length cats] @ [StopIteration], Finished,
              store_catalogs fn kw 0 cats w) \<and>
         (\<forall>k. k \<le> length cats \<longrightarrow>
            fst (gen_run ext k (Created (Some fn) kw) w)
              = map (\<lambda>j. Yield (next_ref w + j)) [0..<k] \<and>
            next_ref (snd (snd (gen_run ext k (Created (Some fn) kw) w))) = next_ref w + k) \<and>
         (\<forall>j. j < length cats \<longrightarrow>
            variant (heap (store_catalogs fn kw 0 cats w) (next_ref w + j)) = UCERF3Catalog \<and>
            catalog_id (heap (store_catalogs fn kw 0 cats w) (next_ref w + j))
              = Some (IdInt (int j)) \<and>
            catalog_getter (next_ref w + j) (store_catalogs fn kw 0 cats w)
              = Some (Ndarray event_dtype (snd (cats ! j))) \<and>
            BaseCatalog_get_number_of_events (next_ref w + j) (store_catalogs fn kw 0 cats w)
              = length (snd (cats ! j)))"
proof (intro conjI allI impI)
  from assms(2) have n: "length cats < 2 ^ 31"
    and ok: "list_all (\<lambda>c. length (snd c) < 2 ^ 31 \<and>
                    list_all (\<lambda>r. length r = itemsize event_dtype) (snd c)) cats"
    by (simp_all add: well_formed_def)
  have content: "files w fn = Some (be_bytes 4 (length cats) @ concat (map merged_catalog cats))"
    using assms(1) by (simp add: merged_file_def)
  show "gen_run ext (Suc (length cats)) (Created (Some fn) kw) w
      = (map (\<lambda>j. Yield (next_ref w + j)) [0..<length cats] @ [StopIteration], Finished,
         store_catalogs fn kw 0 cats w)"
    using run_to_end [OF ok, of ext fn kw 0 w]
    by (simp only: run_from_created [OF content n] add_0)
  {
    fix k
    assume k: "k \<le> length cats"
    have "fst (gen_run ext k (Created (Some fn) kw) w)
          = map (\<lambda>j. Yield (next_ref w + j)) [0..<k] \<and>
        next_ref (snd (snd (gen_run ext k (Created (Some fn) kw) w))) = next_ref w + k"
    proof (cases k)
      case 0
      then show ?thesis by simp
    next
      case (Suc m)
      have "gen_run ext (Suc m) (Running fn kw (concat (map merged_catalog cats)) 0
              (int (length cats))) w
          = (map (\<lambda>j. Yield (next_ref w + j)) [0..<Suc m],
             Running fn kw (concat (map merged_catalog (drop (Suc m) cats))) (0 + Suc m)
               (int (length cats)),
             store_catalogs fn kw 0 (take (Suc m) cats) w)"
        using k Suc by (intro run_prefix [OF _ _ ok]) simp_all
      then show ?thesis
        using k Suc
        by (simp only: Suc run_from_created [OF content n] fst_conv snd_conv next_ref_store
            length_take min_absorb2)
    qed
  }
  then show "\<And>k. k \<le> length cats \<Longrightarrow>
      fst (gen_run ext k (Created (Some fn) kw) w) = map (\<lambda>j. Yield (next_ref w + j)) [0..<k]"
    and "\<And>k. k \<le> length cats \<Longrightarrow>
      next_ref (snd (snd (gen_run ext k (Created (Some fn) kw) w))) = next_ref w + k"
    by blast+
  fix j
  assume j: "j < length cats"
  have ob: "heap (store_catalogs fn kw 0 cats w) (next_ref w + j)
      = u3_object fn kw j (snd (cats ! j))"
    using heap_store_new [OF j, of fn kw 0 w] by simp
  show "variant (heap (store_catalogs fn kw 0 cats w) (next_ref w + j)) = UCERF3Catalog"
    and "catalog_id (heap (store_catalogs fn kw 0 cats w) (next_ref w + j))
      = Some (IdInt (int j))"
    and "catalog_getter (next_ref w + j) (store_catalogs fn kw 0 cats w)
      = Some (Ndarray event_dtype (snd (cats ! j)))"
    and "BaseCatalog_get_number_of_events (next_ref w + j) (store_catalogs fn kw 0 cats w)
      = length (snd (cats ! j))"
    by (simp_all add: ob u3_object_fields catalog_getter_def BaseCatalog_get_number_of_events_def)
qed

text \<open>
  The file of two catalogs: three calls of \<^verbatim>\<open>next\<close> yield the catalogs 0 and 1, of
  one record and of none, and then stop; after the first call one object exists.
\<close>

theorem load_catalogs_well_formed_file_witness:
  "gen_run u3_ext 3 (Created (Some ''merged.bin'') example_kwargs) merged_world
     = ([Yield 0, Yield 1, StopIteration], Finished,
        store_catalogs ''merged.bin'' example_kwargs 0 example_catalogs merged_world) \<and>
   fst (gen_run u3_ext 1 (Created (Some ''merged.bin'') example_kwargs) merged_world)
     = [Yield 0] \<and>
   next_ref (snd (snd (gen_run u3_ext 1 (Created (Some ''merged.bin'') example_kwargs)
      merged_world))) = 1 \<and>
   catalog_id (heap (store_catalogs ''merged.bin'' example_kwargs 0 example_catalogs
      merged_world) 0) = Some (IdInt 0) \<and>
   catalog_id (heap (store_catalogs ''merged.bin'' example_kwargs 0 example_catalogs
      merged_world) 1) = Some (IdInt 1) \<and>
   BaseCatalog_get_number_of_events 0
      (store_catalogs ''merged.bin'' example_kwargs 0 example_catalogs merged_world) = 1 \<and>
   BaseCatalog_get_number_of_events 1
      (store_catalogs ''merged.bin'' example_kwargs 0 example_catalogs merged_world) = 0"
proof -
  have f: "files merged_world ''merged.bin'' = Some (merged_file example_catalogs)"
    by (simp add: merged_world_def)
  have wf: "well_formed example_catalogs"
    by (simp add: well_formed_def example_catalogs_def itemsize_event_dtype)
  have len: "length example_catalogs = 2" and nr: "next_ref merged_world = 0"
    and c0: "snd (example_catalogs ! 0) = [replicate 70 7]"
    and c1: "snd (example_catalogs ! 1) = []"
    by (simp_all add: example_catalogs_def merged_world_def)
  have upt: "[0..<2] = [0, 1]" "[0..<1] = [0]"
    by (simp_all add: upt_conv_Cons)
  note t = load_catalogs_well_formed_file [OF f wf, of u3_ext example_kwargs, unfolded len nr]
  from t have run: "gen_run u3_ext 3 (Created (Some ''merged.bin'') example_kwargs) merged_world
      = ([Yield 0, Yield 1, StopIteration], Finished,
         store_catalogs ''merged.bin'' example_kwargs 0 example_catalogs merged_world)"
    by (simp add: upt numeral_3_eq_3 del: gen_run.simps upt_Suc)
  from t have one: "fst (gen_run u3_ext 1 (Created (Some ''merged.bin'') example_kwargs)
        merged_world) = [Yield 0] \<and>
      next_ref (snd (snd (gen_run u3_ext 1 (Created (Some ''merged.bin'') example_kwargs)
        merged_world))) = 1"
    by (simp add: upt del: gen_run.simps upt_Suc One_nat_def)
  from t have obj: "catalog_id (heap (store_catalogs ''merged.bin'' example_kwargs 0
        example_catalogs merged_world) 0) = Some (IdInt 0) \<and>
      catalog_id (heap (store_catalogs ''merged.bin'' example_kwargs 0 example_catalogs
        merged_world) 1) = Some (IdInt 1) \<and>
      BaseCatalog_get_number_of_events 0
        (store_catalogs ''merged.bin'' example_kwargs 0 example_catalogs merged_world) = 1 \<and>
      BaseCatalog_get_number_of_events 1
        (store_catalogs ''merged.bin'' example_kwargs 0 example_catalogs merged_world) = 0"
    using c0 c1 by (auto simp del: store_catalogs.simps)
  from run one obj show ?thesis by simp
qed

subsection \<open>A file truncated in the middle of a record\<close>

text \<open>
  Claim C3, as the specification states it, requires \<^verbatim>\<open>load_catalogs\<close> to fail on the
  catalog whose records are incomplete and never to yield a catalog shorter than its header
  declares. The file here holds the count 1, a header declaring two records, and 105 bytes
  of body (one record and a half): \<^verbatim>\<open>numpy.fromfile\<close> returns the one complete record it
  finds, the generator yields a catalog of one event without any error, and the next call
  ends the iteration normally.
\<close>

theorem truncated_file_yields_short_catalog:
  "fst (gen_run u3_ext 2 (Created (Some ''merged.bin'') example_kwargs) truncated_world)
     = [Yield 0, StopIteration] \<and>
   BaseCatalog_get_number_of_events 0
     (snd (snd (gen_run u3_ext 2 (Created (Some ''merged.bin'') example_kwargs)
        truncated_world))) = 1"
proof -
  have f: "files truncated_world ''merged.bin''
      = Some (be_bytes 4 1 @ be_bytes 2 1 @ be_bytes 4 2 @ replicate 105 7)"
    by (simp add: truncated_world_def)
  let ?w1 = "allocate (u3_object ''merged.bin'' example_kwargs 0
      (chunks (itemsize event_dtype) (length (replicate 105 (7::byte)) div itemsize event_dtype)
         (replicate 105 7))) truncated_world"
  have first: "load_catalogs_next u3_ext (Created (Some ''merged.bin'') example_kwargs)
        truncated_world
      = (Yield (next_ref truncated_world), Running ''merged.bin'' example_kwargs [] (Suc 0) 1,
         ?w1)"
    unfolding first_next [OF f, of u3_ext example_kwargs, simplified]
    unfolding load_catalogs_next_def gen_state.case
    by (rule iter_truncated_catalog) (simp_all add: itemsize_event_dtype)
  have second: "load_catalogs_next u3_ext (Running ''merged.bin'' example_kwargs [] (Suc 0) 1)
        ?w1 = (StopIteration, Finished, ?w1)"
    by (simp add: load_catalogs_next_def iter_end_of_file)
  have run: "gen_run u3_ext 2 (Created (Some ''merged.bin'') example_kwargs) truncated_world
      = ([Yield (next_ref truncated_world), StopIteration], Finished, ?w1)"
    by (simp only: numeral_2_eq_2 gen_run.simps first second prod.case)
  have nr: "next_ref truncated_world = 0" by (simp add: truncated_world_def)
  show ?thesis
    unfolding run
    by (simp add: nr BaseCatalog_get_number_of_events_def catalog_getter_def allocate_def
        u3_object_fields itemsize_event_dtype length_chunks)
qed

text \<open>
  Claim C3, amended: when fewer bytes than the declared \<^verbatim>\<open>catalog_size\<close> times the record
  width of 70 remain after the header of a catalog, the call of \<^verbatim>\<open>next\<close> raises nothing: it
  yields a new catalog holding the complete records that remain, fewer than the header
  declared, and leaves the generator at the end of the file. The truncation shows only at
  the following call, which raises \<^verbatim>\<open>IndexError\<close> when the count of the file promises a
  further catalog, and stops the iteration otherwise.
\<close>

theorem truncated_catalog_yielded_short:
  assumes "int i < n" and "declared < 2 ^ 31"
    and "length body < declared * itemsize event_dtype"
  shows "(case load_catalogs_next ext
                (Running fn kw (be_bytes 2 v @ be_bytes 4 declared @ body) i n) w of
            (out, g, w') \<Rightarrow>
              out = Yield (next_ref w) \<and>
              g = Running fn kw [] (Suc i) n \<and>
              catalog_getter (next_ref w) w'
                = Some (Ndarray event_dtype
                    (chunks (itemsize event_dtype) (length body div itemsize event_dtype) body)) \<and>
              BaseCatalog_get_number_of_events (next_ref w) w'
                = length body div itemsize event_dtype \<and>
              BaseCatalog_get_number_of_events (next_ref w) w' < declared \<and>
              fst (load_catalogs_next ext g w')
                = (if int (Suc i) < n then Raise IndexError else StopIteration))"
proof -
  have short: "length body div itemsize event_dtype < declared"
    using assms(3) by (simp add: itemsize_event_dtype div_less_iff_less_mult)
  show ?thesis
    using short
    by (simp add: load_catalogs_next_def iter_truncated_catalog [OF assms] iter_end_of_file
        catalog_getter_def BaseCatalog_get_number_of_events_def allocate_def u3_object_fields
        length_chunks)
qed

text \<open>
  The same truncated body in a file whose count promises two catalogs: a catalog of one
  event is yielded, and the following call raises \<^verbatim>\<open>IndexError\<close>.
\<close>

theorem truncated_catalog_yielded_short_witness:
  "(case load_catalogs_next u3_ext
          (Running ''merged.bin'' example_kwargs
             (be_bytes 2 1 @ be_bytes 4 2 @ replicate 105 7) 0 2) truncated_world of
      (out, g, w') \<Rightarrow>
        out = Yield 0 \<and> g = Running ''merged.bin'' example_kwargs [] 1 2 \<and>
        BaseCatalog_get_number_of_events 0 w' = 1 \<and>
        fst (load_catalogs_next u3_ext g w') = Raise IndexError)"
proof -
  have nr: "next_ref truncated_world = 0" by (simp add: truncated_world_def)
  have a: "int 0 < 2" and b: "(2::nat) < 2 ^ 31"
    and c: "length (replicate 105 (7::byte)) < 2 * itemsize event_dtype"
    by (simp_all add: itemsize_event_dtype)
  from truncated_catalog_yielded_short [OF a b c, where ext = u3_ext and fn = "''merged.bin''"
      and kw = example_kwargs and v = 1 and w = truncated_world]
  show ?thesis
    by (simp add: nr itemsize_event_dtype split: prod.splits)
qed
end
